theory Spec2Isabelle
  imports Main
begin

section \<open>Python values read back from JSON\<close>

text \<open>
  \<^verbatim>\<open>pip_checker.py\<close> parses the output of \<^verbatim>\<open>pip list\<close> and the registry's answers with
  \<^verbatim>\<open>json.loads\<close> and then works on the parsed values with dynamically typed operations
  (\<^verbatim>\<open>.get\<close>, \<^verbatim>\<open>in\<close>, \<^verbatim>\<open>[0]\<close>, truth tests, \<^verbatim>\<open>!=\<close>, iteration). The parsed values are
  modelled by the datatype \<open>json\<close>; Python's \<^verbatim>\<open>None\<close> is \<open>JNull\<close>. An object is an
  association list in insertion order, the value of a key being its first binding.
  Numbers with a fraction or an exponent (Python floats) are not represented.

  Every exception the module can raise is a constructor of \<open>exn\<close>, and a computation that
  may raise returns \<open>exn + 'a\<close> with \<open>Inl\<close> for the exception.

  Naming: a leading underscore of the source (\<^verbatim>\<open>_run_command\<close>, \<^verbatim>\<open>self._packages\<close>) is
  written as a trailing prime (\<open>run_command'\<close>, \<open>packages'\<close>).
\<close>

datatype json =
    JNull
  | JBool bool
  | JInt int
  | JStr string
  | JArr "json list"
  | JObj "(string \<times> json) list"

datatype exn =
    PipError "string list" int string
  | JSONDecodeError
  | URLError
  | UnicodeDecodeError
  | TypeError
  | AttributeError
  | KeyError
  | IndexError
  | UnboundLocalError
  | FileNotFoundError

text \<open>
  Python's \<^verbatim>\<open>==\<close> on parsed JSON: \<^verbatim>\<open>bool\<close> is a subclass of \<^verbatim>\<open>int\<close>
  (\<^verbatim>\<open>True == 1\<close>), lists compare elementwise, dicts compare as mappings
  whatever the order of their keys.
\<close>

function py_eq :: "json \<Rightarrow> json \<Rightarrow> bool" where
  "py_eq JNull b = (b = JNull)"
| "py_eq (JBool p) b =
     (case b of JBool q \<Rightarrow> p = q | JInt n \<Rightarrow> n = (if p then 1 else 0) | _ \<Rightarrow> False)"
| "py_eq (JInt m) b =
     (case b of JBool q \<Rightarrow> m = (if q then 1 else 0) | JInt n \<Rightarrow> m = n | _ \<Rightarrow> False)"
| "py_eq (JStr s) b = (b = JStr s)"
| "py_eq (JArr xs) b =
     (case b of
        JArr ys \<Rightarrow> length xs = length ys \<and> (\<forall>(x, y) \<in> set (zip xs ys). py_eq x y)
      | _ \<Rightarrow> False)"
| "py_eq (JObj kvs) b =
     (case b of
        JObj kws \<Rightarrow>
          (\<forall>k \<in> set (map fst kvs) \<union> set (map fst kws).
             case map_of kvs k of
               None \<Rightarrow> False
             | Some v \<Rightarrow> (case map_of kws k of None \<Rightarrow> False | Some w \<Rightarrow> py_eq v w))
      | _ \<Rightarrow> False)"
  by pat_completeness auto
termination
proof -
  have elem: "size x < Suc (size_list size xs)" if "x \<in> set xs" for x :: json and xs
    using that by (induction xs) auto
  have left: "size x < Suc (size_list size xs)"
    if "(x, y) \<in> set (zip xs ys)" for x y :: json and xs ys
    using that by (intro elem) (rule set_zip_leftD)
  have bound: "size v < Suc (size_list (size_prod (\<lambda>_. 0) size) kvs)"
    if "map_of kvs k = Some v" for v :: json and kvs and k :: string
    using that by (induction kvs) (auto split: if_splits)
  show ?thesis
    by (relation "measure (\<lambda>(a, b). size a)") (auto simp: left bound)
qed

text \<open>Lists and dicts are unhashable: using one as a dict key raises \<^verbatim>\<open>TypeError\<close>.\<close>

fun py_hashable :: "json \<Rightarrow> bool" where
  "py_hashable (JArr xs) = False"
| "py_hashable (JObj kvs) = False"
| "py_hashable v = True"

text \<open>The truth value of \<^verbatim>\<open>if v:\<close>.\<close>

fun py_truthy :: "json \<Rightarrow> bool" where
  "py_truthy JNull = False"
| "py_truthy (JBool b) = b"
| "py_truthy (JInt n) = (n \<noteq> 0)"
| "py_truthy (JStr s) = (s \<noteq> [])"
| "py_truthy (JArr xs) = (xs \<noteq> [])"
| "py_truthy (JObj kvs) = (kvs \<noteq> [])"

text \<open>\<^verbatim>\<open>sub in s\<close> on two strings: \<open>sub\<close> occurs in \<open>s\<close> as a contiguous piece.\<close>

primrec str_contains :: "string \<Rightarrow> string \<Rightarrow> bool" where
  "str_contains sub [] = (sub = [])"
| "str_contains sub (c # cs) = (take (length sub) (c # cs) = sub \<or> str_contains sub cs)"

text \<open>
  \<^verbatim>\<open>item in container\<close>: key membership for a dict, element equality for a list,
  substring for a string; \<^verbatim>\<open>TypeError\<close> where the container is not iterable, the item
  of a dict test is unhashable, or the left operand of a string test is not a string.
\<close>

fun py_in :: "json \<Rightarrow> json \<Rightarrow> exn + bool" where
  "py_in item (JObj kvs) =
     (if py_hashable item
      then Inr (case item of JStr s \<Rightarrow> s \<in> set (map fst kvs) | _ \<Rightarrow> False)
      else Inl TypeError)"
| "py_in item (JArr xs) = Inr (\<exists>x \<in> set xs. py_eq x item)"
| "py_in item (JStr s) = (case item of JStr sub \<Rightarrow> Inr (str_contains sub s) | _ \<Rightarrow> Inl TypeError)"
| "py_in item v = Inl TypeError"

text \<open>
  \<^verbatim>\<open>obj.get(key)\<close>: only a dict has the method (\<^verbatim>\<open>AttributeError\<close> otherwise, raised
  before the key is looked at); the key is hashed (\<^verbatim>\<open>TypeError\<close> for a list or a dict);
  the keys of a parsed object are strings, so any other key is simply absent; an absent
  key gives \<^verbatim>\<open>None\<close>.
\<close>

fun py_get :: "json \<Rightarrow> json \<Rightarrow> exn + json" where
  "py_get (JObj kvs) key =
     (if py_hashable key
      then Inr (case key of
                  JStr s \<Rightarrow> (case map_of kvs s of None \<Rightarrow> JNull | Some v \<Rightarrow> v)
                | _ \<Rightarrow> JNull)
      else Inl TypeError)"
| "py_get obj key = Inl AttributeError"

text \<open>\<^verbatim>\<open>v[0]\<close>.\<close>

fun py_getitem0 :: "json \<Rightarrow> exn + json" where
  "py_getitem0 (JArr []) = Inl IndexError"
| "py_getitem0 (JArr (x # xs)) = Inr x"
| "py_getitem0 (JStr []) = Inl IndexError"
| "py_getitem0 (JStr (c # cs)) = Inr (JStr [c])"
| "py_getitem0 (JObj kvs) = Inl KeyError"
| "py_getitem0 v = Inl TypeError"

text \<open>
  The values a \<^verbatim>\<open>for\<close> loop visits: the elements of a list, the keys of a dict, the
  characters of a string; anything else is not iterable.
\<close>

fun py_iter :: "json \<Rightarrow> exn + json list" where
  "py_iter (JArr xs) = Inr xs"
| "py_iter (JObj kvs) = Inr (map JStr (remdups (map fst kvs)))"
| "py_iter (JStr s) = Inr (map (\<lambda>c. JStr [c]) s)"
| "py_iter v = Inl TypeError"

subsection \<open>Dicts built by the module\<close>

text \<open>
  \<^verbatim>\<open>outdated_pkgs\<close> and \<^verbatim>\<open>pkg_version_date\<close> are keyed by whatever \<^verbatim>\<open>pkg.get('name')\<close>
  returned. They are association lists in insertion order; a key is found by \<^verbatim>\<open>==\<close>,
  and storing under a key that is already there keeps the stored key and replaces the
  value.
\<close>

fun dict_lookup :: "(json \<times> 'v) list \<Rightarrow> json \<Rightarrow> 'v option" where
  "dict_lookup [] k = None"
| "dict_lookup ((k', v) # d) k = (if py_eq k' k then Some v else dict_lookup d k)"

fun dict_update :: "(json \<times> 'v) list \<Rightarrow> json \<Rightarrow> 'v \<Rightarrow> (json \<times> 'v) list" where
  "dict_update [] k v = [(k, v)]"
| "dict_update ((k', v') # d) k v =
     (if py_eq k' k then (k', v) # d else (k', v') # dict_update d k v)"

definition dict_setitem :: "(json \<times> 'v) list \<Rightarrow> json \<Rightarrow> 'v \<Rightarrow> exn + (json \<times> 'v) list" where
  "dict_setitem d k v = (if py_hashable k then Inr (dict_update d k v) else Inl TypeError)"

definition dict_contains :: "(json \<times> 'v) list \<Rightarrow> json \<Rightarrow> exn + bool" where
  "dict_contains d k = (if py_hashable k then Inr (dict_lookup d k \<noteq> None) else Inl TypeError)"

definition dict_get :: "(json \<times> json) list \<Rightarrow> json \<Rightarrow> exn + json" where
  "dict_get d k =
     (if py_hashable k
      then Inr (case dict_lookup d k of None \<Rightarrow> JNull | Some v \<Rightarrow> v)
      else Inl TypeError)"

text \<open>The keys of such a dict are hashable, and no two of them are equal.\<close>

definition dict_keys_ok :: "json list \<Rightarrow> bool" where
  "dict_keys_ok ks \<longleftrightarrow>
     (\<forall>k \<in> set ks. py_hashable k) \<and> distinct ks \<and>
     (\<forall>k \<in> set ks. \<forall>k' \<in> set ks. py_eq k k' \<longrightarrow> k = k')"

section \<open>Data model\<close>

datatype PipCheckResultType = SUCCESS | INSTALL_ERROR | CHECK_WARNING

text \<open>The dict literal \<^verbatim>\<open>pkg_info\<close> of \<^verbatim>\<open>_list\<close>, with its six keys.\<close>

record pkg_info =
  installed_version :: json
  installed_version_time :: json
  latest_version :: json
  current_time :: string
  latest_version_time :: json
  is_latest :: bool

record PipCheckResult =
  packages :: "string list"
  result_type :: PipCheckResultType
  result_text :: "string option"
  dependency_info :: "(json \<times> pkg_info) list option"

definition with_extra_attrs ::
  "PipCheckResult \<Rightarrow> (json \<times> pkg_info) list option \<Rightarrow> PipCheckResult" where
  "with_extra_attrs self dep =
     \<lparr>packages = packages self, result_type = result_type self,
      result_text = result_text self, dependency_info = dep\<rparr>"

record OneshotPipCheck =
  pip_command' :: "string list"
  packages' :: "string list"
  tmp_path' :: "string option"
  output_directory' :: "string option"
  clean' :: bool

section \<open>The outside world\<close>

text \<open>
  What the module does not decide is an oracle of the environment: the exit code and the
  two output streams of an external command (the six commands of one run are pairwise
  different argument vectors, so the oracle is asked about each at most once), the
  registry's answer to the \<open>n\<close>-th request of the run for a package name and version (the
  URL is \<^verbatim>\<open>PYPI_URL + '{}/{}/json'.format(pkg_name, pkg_version)\<close>, a function of the
  two), the result of \<^verbatim>\<open>json.loads\<close> (\<open>None\<close> where it raises), the \<open>n\<close>-th reading of
  the clock, the directory \<^verbatim>\<open>tempfile.mkdtemp\<close> creates, and the decoding of the bytes
  of a file in the locale's preferred encoding, which \<^verbatim>\<open>open(path)\<close> uses for a file it
  reads as text (\<open>None\<close> where it raises \<^verbatim>\<open>UnicodeDecodeError\<close>).

  A file holds the bytes the command wrote. A text (a Python \<^verbatim>\<open>str\<close>) is written as the
  bytes of its UTF-8 encoding.

  The state the module changes is the \<open>world\<close>: the content of the files it had
  commands write, and a log of the commands run, the registry requests sent and the
  clock readings taken so far.

  Failures of the operating system itself are outside the model: every command can be
  started and runs to its exit code, the scratch directory can be created, and the
  files in it can be opened.
\<close>

datatype http_outcome =
    Body string
  | HTTPError int
  | Unreachable
  | Undecodable

record env =
  subprocess_run :: "string list \<Rightarrow> int \<times> string \<times> string"
  urlopen :: "nat \<Rightarrow> json \<Rightarrow> json \<Rightarrow> http_outcome"
  json_loads :: "string \<Rightarrow> json option"
  now_isoformat :: "nat \<Rightarrow> string"
  mkdtemp :: "string option \<Rightarrow> string"
  decode :: "string \<Rightarrow> string option"

record world =
  files :: "string \<Rightarrow> string option"
  commands :: "string list list"
  requests :: "(json \<times> json) list"
  clock_reads :: nat

text \<open>\<^verbatim>\<open>os.path.join\<close> of two components (\<^verbatim>\<open>posixpath\<close>).\<close>

definition os_path_join :: "string \<Rightarrow> string \<Rightarrow> string" where
  "os_path_join a b =
     (if b \<noteq> [] \<and> hd b = CHR ''/'' then b
      else if a = [] \<or> last a = CHR ''/'' then a @ b
      else a @ ''/'' @ b)"

section \<open>The command runner and the registry helper\<close>

text \<open>
  \<^verbatim>\<open>_run_command\<close>: both files are opened for writing and receive the two streams of
  the command; then the exit code is returned, or \<^verbatim>\<open>PipError\<close> raised when it is
  non-zero and \<^verbatim>\<open>raise_on_failure\<close> is set. (With one path given twice the real content
  of the file depends on how the writes interleave; the callers always give two paths.)
\<close>

definition run_command' ::
  "env \<Rightarrow> string list \<Rightarrow> string \<Rightarrow> string \<Rightarrow> bool \<Rightarrow> world \<Rightarrow> (exn + int) \<times> world" where
  "run_command' e command stdout_path stderr_path raise_on_failure w =
     (case subprocess_run e command of
        (returncode, out, err) \<Rightarrow>
          let w' = w\<lparr>files := (files w)(stdout_path \<mapsto> out, stderr_path \<mapsto> err),
                    commands := commands w @ [command]\<rparr>
          in if returncode \<noteq> 0 \<and> raise_on_failure
             then (Inl (PipError command returncode stderr_path), w')
             else (Inr returncode, w'))"

text \<open>
  \<^verbatim>\<open>_call_pypi_json_api\<close>: the only handler is \<^verbatim>\<open>except urllib.error.HTTPError\<close>, which
  returns \<^verbatim>\<open>None\<close>; a request that fails otherwise, a body that is not UTF-8 and a body
  \<^verbatim>\<open>json.loads\<close> rejects raise.
\<close>

definition call_pypi_json_api' ::
  "env \<Rightarrow> json \<Rightarrow> json \<Rightarrow> world \<Rightarrow> (exn + json) \<times> world" where
  "call_pypi_json_api' e pkg_name pkg_version w =
     (let w' = w\<lparr>requests := requests w @ [(pkg_name, pkg_version)]\<rparr>
      in case urlopen e (length (requests w)) pkg_name pkg_version of
           HTTPError status \<Rightarrow> (Inr JNull, w')
         | Unreachable \<Rightarrow> (Inl URLError, w')
         | Undecodable \<Rightarrow> (Inl UnicodeDecodeError, w')
         | Body text \<Rightarrow>
             (case json_loads e text of
                None \<Rightarrow> (Inl JSONDecodeError, w')
              | Some result \<Rightarrow> (Inr result, w')))"

definition build_command' :: "OneshotPipCheck \<Rightarrow> string list \<Rightarrow> string list" where
  "build_command' self subcommands = pip_command' self @ subcommands"

text \<open>
  \<^verbatim>\<open>_read\<close> opens the file in text mode with the default \<^verbatim>\<open>newline=None\<close>: the bytes are
  decoded in the locale's encoding, and then every \<^verbatim>\<open>\r\n\<close> and every remaining \<^verbatim>\<open>\r\<close>
  becomes \<^verbatim>\<open>\n\<close>. (Carriage return and line feed are single bytes of a UTF-8 text and
  occur in no longer sequence of it.)
\<close>

fun universal_newlines :: "string \<Rightarrow> string" where
  "universal_newlines [] = []"
| "universal_newlines [c] = [if c = CHR 0x0D then CHR 0x0A else c]"
| "universal_newlines (c # d # cs) =
     (if c = CHR 0x0D
      then (if d = CHR 0x0A then CHR 0x0A # universal_newlines cs
            else CHR 0x0A # universal_newlines (d # cs))
      else c # universal_newlines (d # cs))"

definition decode_text :: "env \<Rightarrow> string \<Rightarrow> string option" where
  "decode_text e bytes = map_option universal_newlines (decode e bytes)"

definition read' :: "env \<Rightarrow> string \<Rightarrow> world \<Rightarrow> exn + string" where
  "read' e path w =
     (case files w path of
        None \<Rightarrow> Inl FileNotFoundError
      | Some bytes \<Rightarrow>
          (case decode_text e bytes of
             None \<Rightarrow> Inl UnicodeDecodeError
           | Some text \<Rightarrow> Inr text))"

text \<open>\<^verbatim>\<open>os.path.getsize(path) > 0\<close>.\<close>

definition getsize_positive :: "string \<Rightarrow> world \<Rightarrow> exn + bool" where
  "getsize_positive path w =
     (case files w path of None \<Rightarrow> Inl FileNotFoundError | Some text \<Rightarrow> Inr (text \<noteq> []))"

text \<open>The exception \<^verbatim>\<open>_call_pypi_json_api\<close> lets through for an answer of the registry.\<close>

definition request_raises :: "env \<Rightarrow> http_outcome \<Rightarrow> exn option" where
  "request_raises e outcome =
     (case outcome of
        Body text \<Rightarrow> (case json_loads e text of None \<Rightarrow> Some JSONDecodeError | Some v \<Rightarrow> None)
      | HTTPError status \<Rightarrow> None
      | Unreachable \<Rightarrow> Some URLError
      | Undecodable \<Rightarrow> Some UnicodeDecodeError)"

section \<open>The steps of one check\<close>

text \<open>
  Each step builds its paths with \<^verbatim>\<open>os.path.join(self._output_directory, ...)\<close> first,
  which raises \<^verbatim>\<open>TypeError\<close> while the directory is still \<^verbatim>\<open>None\<close>.
\<close>

definition freeze' :: "env \<Rightarrow> OneshotPipCheck \<Rightarrow> string \<Rightarrow> world \<Rightarrow> (exn + unit) \<times> world" where
  "freeze' e self requirements_file_path w =
     (let command = build_command' self [''freeze''] in
      case output_directory' self of
        None \<Rightarrow> (Inl TypeError, w)
      | Some d \<Rightarrow>
          (case run_command' e command requirements_file_path
                  (os_path_join d ''freeze-error.txt'') True w of
             (Inl x, w1) \<Rightarrow> (Inl x, w1)
           | (Inr returncode, w1) \<Rightarrow> (Inr (), w1)))"

definition uninstall' :: "env \<Rightarrow> OneshotPipCheck \<Rightarrow> string \<Rightarrow> world \<Rightarrow> (exn + unit) \<times> world" where
  "uninstall' e self requirements_file_path w =
     (case output_directory' self of
        None \<Rightarrow> (Inl TypeError, w)
      | Some d \<Rightarrow>
          (let std_out_path = os_path_join d ''uninstall-out.txt'';
               std_err_path = os_path_join d ''uninstall-error.txt'';
               command = build_command' self [''uninstall'', ''--yes'', ''-r'', requirements_file_path]
           in case run_command' e command std_out_path std_err_path True w of
                (Inl x, w1) \<Rightarrow> (Inl x, w1)
              | (Inr returncode, w1) \<Rightarrow> (Inr (), w1)))"

definition install' :: "env \<Rightarrow> OneshotPipCheck \<Rightarrow> world \<Rightarrow> (exn + PipCheckResult) \<times> world" where
  "install' e self w =
     (case output_directory' self of
        None \<Rightarrow> (Inl TypeError, w)
      | Some d \<Rightarrow>
          (let std_out_path = os_path_join d ''install-out.txt'';
               std_err_path = os_path_join d ''install-error.txt'';
               command = build_command' self ([''install'', ''-U''] @ packages' self)
           in case run_command' e command std_out_path std_err_path False w of
                (Inl x, w1) \<Rightarrow> (Inl x, w1)
              | (Inr returncode, w1) \<Rightarrow>
                  if returncode \<noteq> 0
                  then (case read' e std_err_path w1 of
                          Inl x \<Rightarrow> (Inl x, w1)
                        | Inr text \<Rightarrow>
                            (Inr \<lparr>packages = packages' self, result_type = INSTALL_ERROR,
                                  result_text = Some text, dependency_info = None\<rparr>, w1))
                  else (Inr \<lparr>packages = packages' self, result_type = SUCCESS,
                             result_text = None, dependency_info = None\<rparr>, w1)))"

definition check' :: "env \<Rightarrow> OneshotPipCheck \<Rightarrow> world \<Rightarrow> (exn + PipCheckResult) \<times> world" where
  "check' e self w =
     (case output_directory' self of
        None \<Rightarrow> (Inl TypeError, w)
      | Some d \<Rightarrow>
          (let std_out_path = os_path_join d ''check-out.txt'';
               std_err_path = os_path_join d ''check-error.txt'';
               command = build_command' self [''check'']
           in case run_command' e command std_out_path std_err_path False w of
                (Inl x, w1) \<Rightarrow> (Inl x, w1)
              | (Inr returncode, w1) \<Rightarrow>
                  if returncode \<noteq> 0
                  then (case read' e std_out_path w1 of
                          Inl x \<Rightarrow> (Inl x, w1)
                        | Inr text \<Rightarrow>
                            (Inr \<lparr>packages = packages' self, result_type = CHECK_WARNING,
                                  result_text = Some text, dependency_info = None\<rparr>, w1))
                  else (Inr \<lparr>packages = packages' self, result_type = SUCCESS,
                             result_text = None, dependency_info = None\<rparr>, w1)))"

section \<open>Enrichment: \<^verbatim>\<open>_list\<close>\<close>

text \<open>
  The first loop of \<^verbatim>\<open>_list\<close> turns the output of \<^verbatim>\<open>pip list -o\<close> into the dict
  \<^verbatim>\<open>outdated_pkgs\<close>.
\<close>

fun outdated_loop :: "json list \<Rightarrow> (json \<times> json) list \<Rightarrow> exn + (json \<times> json) list" where
  "outdated_loop [] outdated_pkgs = Inr outdated_pkgs"
| "outdated_loop (pkg # rest) outdated_pkgs =
     (case py_get pkg (JStr ''name'') of
        Inl x \<Rightarrow> Inl x
      | Inr pkg_name \<Rightarrow>
          (case py_get pkg (JStr ''latest_version'') of
             Inl x \<Rightarrow> Inl x
           | Inr latest_ver \<Rightarrow>
               (case dict_setitem outdated_pkgs pkg_name latest_ver of
                  Inl x \<Rightarrow> Inl x
                | Inr outdated_pkgs' \<Rightarrow> outdated_loop rest outdated_pkgs')))"

text \<open>
  The reconciliation of one installed package against \<^verbatim>\<open>outdated_pkgs\<close> (the lines
  from \<^verbatim>\<open>latest_version = installed_version\<close> to \<^verbatim>\<open>is_latest = False\<close>): the result
  is \<^verbatim>\<open>(latest_version, is_latest)\<close>.
\<close>

definition merge_latest :: "(json \<times> json) list \<Rightarrow> json \<Rightarrow> json \<Rightarrow> exn + json \<times> bool" where
  "merge_latest outdated_pkgs pkg_name installed_ver =
     (case dict_contains outdated_pkgs pkg_name of
        Inl x \<Rightarrow> Inl x
      | Inr present \<Rightarrow>
          if present
          then (case dict_get outdated_pkgs pkg_name of
                  Inl x \<Rightarrow> Inl x
                | Inr latest_ver \<Rightarrow>
                    Inr (latest_ver, if \<not> py_eq latest_ver installed_ver then False else True))
          else Inr (installed_ver, True))"

text \<open>
  \<^verbatim>\<open>if rel: t = rel[0].get('upload_time')\<close>, with \<^verbatim>\<open>t\<close> initialised to \<^verbatim>\<open>None\<close>; reading
  the variable \<^verbatim>\<open>rel\<close> raises \<^verbatim>\<open>UnboundLocalError\<close> while nothing was assigned to it.
\<close>

definition upload_time_of :: "json option \<Rightarrow> exn + json" where
  "upload_time_of rel =
     (case rel of
        None \<Rightarrow> Inl UnboundLocalError
      | Some r \<Rightarrow>
          if py_truthy r
          then (case py_getitem0 r of
                  Inl x \<Rightarrow> Inl x
                | Inr first \<Rightarrow> py_get first (JStr ''upload_time''))
          else Inr JNull)"

text \<open>
  The local variables of \<^verbatim>\<open>_list\<close> that live across the iterations of its second loop:
  the report, and \<^verbatim>\<open>latest_release\<close> and \<^verbatim>\<open>installed_release\<close>, which are assigned
  only under \<^verbatim>\<open>if 'releases' in result\<close> and are unbound (\<open>None\<close>) before the first
  assignment.
\<close>

record locals =
  pkg_version_date :: "(json \<times> pkg_info) list"
  latest_release :: "json option"
  installed_release :: "json option"

text \<open>
  The block under \<^verbatim>\<open>if result is not None\<close>, with the two initialisations to \<^verbatim>\<open>None\<close>
  before it. The result is \<^verbatim>\<open>(installed_version_time, latest_version_time)\<close> and the
  two release variables as the block leaves them.
\<close>

definition release_times ::
  "json \<Rightarrow> json \<Rightarrow> json \<Rightarrow> json option \<Rightarrow> json option
     \<Rightarrow> exn + (json \<times> json) \<times> (json option \<times> json option)" where
  "release_times result latest_ver installed_ver latest_rel installed_rel =
     (if result = JNull then Inr ((JNull, JNull), (latest_rel, installed_rel))
      else
        case py_in (JStr ''releases'') result of
          Inl x \<Rightarrow> Inl x
        | Inr has_releases \<Rightarrow>
            (case (if has_releases
                   then (case py_get result (JStr ''releases'') of
                           Inl x \<Rightarrow> Inl x
                         | Inr releases \<Rightarrow>
                             (case py_get releases latest_ver of
                                Inl x \<Rightarrow> Inl x
                              | Inr lr \<Rightarrow>
                                  (case py_get releases installed_ver of
                                     Inl x \<Rightarrow> Inl x
                                   | Inr ir \<Rightarrow> Inr (Some lr, Some ir))))
                   else Inr (latest_rel, installed_rel)) of
               Inl x \<Rightarrow> Inl x
             | Inr (latest_rel', installed_rel') \<Rightarrow>
                 (case upload_time_of latest_rel' of
                    Inl x \<Rightarrow> Inl x
                  | Inr latest_ver_time \<Rightarrow>
                      (case upload_time_of installed_rel' of
                         Inl x \<Rightarrow> Inl x
                       | Inr installed_ver_time \<Rightarrow>
                           Inr ((installed_ver_time, latest_ver_time),
                                (latest_rel', installed_rel'))))))"

text \<open>\<^verbatim>\<open>datetime.datetime.now().isoformat()\<close>.\<close>

definition datetime_now :: "env \<Rightarrow> world \<Rightarrow> string \<times> world" where
  "datetime_now e w = (now_isoformat e (clock_reads w), w\<lparr>clock_reads := Suc (clock_reads w)\<rparr>)"

text \<open>
  One iteration of the second loop of \<^verbatim>\<open>_list\<close>. The locals \<^verbatim>\<open>installed_version\<close>,
  \<^verbatim>\<open>latest_version\<close> and \<^verbatim>\<open>is_latest\<close> are written \<open>installed_ver\<close>, \<open>latest_ver\<close> and
  \<open>latest\<close> here and above, their names being those of the fields of \<open>pkg_info\<close>.
\<close>

definition list_body ::
  "env \<Rightarrow> (json \<times> json) list \<Rightarrow> json \<Rightarrow> locals \<Rightarrow> world \<Rightarrow> (exn + locals) \<times> world" where
  "list_body e outdated_pkgs pkg st w =
     (case py_get pkg (JStr ''name'') of
        Inl x \<Rightarrow> (Inl x, w)
      | Inr pkg_name \<Rightarrow>
     (case py_get pkg (JStr ''version'') of
        Inl x \<Rightarrow> (Inl x, w)
      | Inr installed_ver \<Rightarrow>
     (case merge_latest outdated_pkgs pkg_name installed_ver of
        Inl x \<Rightarrow> (Inl x, w)
      | Inr (latest_ver, latest) \<Rightarrow>
     (case call_pypi_json_api' e pkg_name latest_ver w of
        (Inl x, w1) \<Rightarrow> (Inl x, w1)
      | (Inr result, w1) \<Rightarrow>
     (case release_times result latest_ver installed_ver
             (latest_release st) (installed_release st) of
        Inl x \<Rightarrow> (Inl x, w1)
      | Inr ((installed_time, latest_time), (latest_rel, installed_rel)) \<Rightarrow>
     (case datetime_now e w1 of
        (now, w2) \<Rightarrow>
          (Inr \<lparr>pkg_version_date =
                   dict_update (pkg_version_date st) pkg_name
                     \<lparr>installed_version = installed_ver,
                      installed_version_time = installed_time,
                      latest_version = latest_ver,
                      current_time = now,
                      latest_version_time = latest_time,
                      is_latest = latest\<rparr>,
                 latest_release = latest_rel,
                 installed_release = installed_rel\<rparr>, w2)))))))"

fun list_loop ::
  "env \<Rightarrow> (json \<times> json) list \<Rightarrow> json list \<Rightarrow> locals \<Rightarrow> world \<Rightarrow> (exn + locals) \<times> world" where
  "list_loop e outdated_pkgs [] st w = (Inr st, w)"
| "list_loop e outdated_pkgs (pkg # rest) st w =
     (case list_body e outdated_pkgs pkg st w of
        (Inl x, w1) \<Rightarrow> (Inl x, w1)
      | (Inr st1, w1) \<Rightarrow> list_loop e outdated_pkgs rest st1 w1)"

text \<open>
  The two loops of \<^verbatim>\<open>_list\<close>, from \<^verbatim>\<open>outdated_pkgs = {}\<close> to the \<^verbatim>\<open>return\<close>, on the two
  parsed outputs.
\<close>

definition list_loops ::
  "env \<Rightarrow> json \<Rightarrow> json \<Rightarrow> world \<Rightarrow> (exn + (json \<times> pkg_info) list) \<times> world" where
  "list_loops e pip_list_result pip_list_latest_result w =
     (case py_iter pip_list_latest_result of
        Inl x \<Rightarrow> (Inl x, w)
      | Inr latest_items \<Rightarrow>
     (case outdated_loop latest_items [] of
        Inl x \<Rightarrow> (Inl x, w)
      | Inr outdated_pkgs \<Rightarrow>
     (case py_iter pip_list_result of
        Inl x \<Rightarrow> (Inl x, w)
      | Inr items \<Rightarrow>
     (case list_loop e outdated_pkgs items
             \<lparr>pkg_version_date = [], latest_release = None, installed_release = None\<rparr> w of
        (Inl x, w1) \<Rightarrow> (Inl x, w1)
      | (Inr st, w1) \<Rightarrow> (Inr (pkg_version_date st), w1)))))"

text \<open>
  \<^verbatim>\<open>json.loads(self._read(std_out_path))\<close> as a function of the bytes in the file.
\<close>

definition loads_output :: "env \<Rightarrow> string \<Rightarrow> exn + json" where
  "loads_output e bytes =
     (case decode_text e bytes of
        None \<Rightarrow> Inl UnicodeDecodeError
      | Some text \<Rightarrow>
          (case json_loads e text of
             None \<Rightarrow> Inl JSONDecodeError
           | Some parsed \<Rightarrow> Inr parsed))"

text \<open>
  One of the two queries of \<^verbatim>\<open>_list\<close>: run \<^verbatim>\<open>pip list\<close> with the given options without
  raising on failure, read its standard output back and parse it.
\<close>

definition list_query ::
  "env \<Rightarrow> OneshotPipCheck \<Rightarrow> string list \<Rightarrow> string \<Rightarrow> string \<Rightarrow> world \<Rightarrow> (exn + json) \<times> world" where
  "list_query e self subcommands std_out_path std_err_path w =
     (case run_command' e (build_command' self subcommands) std_out_path std_err_path False w of
        (Inl x, w1) \<Rightarrow> (Inl x, w1)
      | (Inr returncode, w1) \<Rightarrow>
          (case read' e std_out_path w1 of
             Inl x \<Rightarrow> (Inl x, w1)
           | Inr text \<Rightarrow>
               (case json_loads e text of
                  None \<Rightarrow> (Inl JSONDecodeError, w1)
                | Some parsed \<Rightarrow> (Inr parsed, w1))))"

definition list' :: "env \<Rightarrow> OneshotPipCheck \<Rightarrow> world \<Rightarrow> (exn + (json \<times> pkg_info) list) \<times> world" where
  "list' e self w =
     (case output_directory' self of
        None \<Rightarrow> (Inl TypeError, w)
      | Some d \<Rightarrow>
     (case list_query e self [''list'', ''--format=json'']
             (os_path_join d ''list-out.txt'') (os_path_join d ''list-error.txt'') w of
        (Inl x, w1) \<Rightarrow> (Inl x, w1)
      | (Inr pip_list_result, w1) \<Rightarrow>
     (case list_query e self [''list'', ''-o'', ''--format=json'']
             (os_path_join d ''list-outdate-out.txt'')
             (os_path_join d ''list-outdate-error.txt'') w1 of
        (Inl x, w2) \<Rightarrow> (Inl x, w2)
      | (Inr pip_list_latest_result, w2) \<Rightarrow>
          list_loops e pip_list_result pip_list_latest_result w2)))"

text \<open>A report with the clock readings blanked.\<close>

definition without_time :: "(json \<times> pkg_info) list \<Rightarrow> (json \<times> pkg_info) list" where
  "without_time report = map (\<lambda>(k, info). (k, info\<lparr>current_time := []\<rparr>)) report"

section \<open>The orchestrator\<close>

text \<open>The \<^verbatim>\<open>if self._clean:\<close> block of \<^verbatim>\<open>run\<close>.\<close>

definition clean_block :: "env \<Rightarrow> OneshotPipCheck \<Rightarrow> world \<Rightarrow> (exn + unit) \<times> world" where
  "clean_block e self w =
     (if clean' self
      then (case output_directory' self of
              None \<Rightarrow> (Inl TypeError, w)
            | Some d \<Rightarrow>
                (let requirements_old_file_path = os_path_join d ''requirements-old.txt''
                 in case freeze' e self requirements_old_file_path w of
                      (Inl x, w1) \<Rightarrow> (Inl x, w1)
                    | (Inr u, w1) \<Rightarrow>
                        (case getsize_positive requirements_old_file_path w1 of
                           Inl x \<Rightarrow> (Inl x, w1)
                         | Inr nonempty \<Rightarrow>
                             if nonempty then uninstall' e self requirements_old_file_path w1
                             else (Inr (), w1))))
      else (Inr (), w))"

text \<open>\<^verbatim>\<open>run\<close> after the directory has been created and stored in \<^verbatim>\<open>self\<close>.\<close>

definition run_steps :: "env \<Rightarrow> OneshotPipCheck \<Rightarrow> world \<Rightarrow> (exn + PipCheckResult) \<times> world" where
  "run_steps e self w =
     (case clean_block e self w of
        (Inl x, w1) \<Rightarrow> (Inl x, w1)
      | (Inr u, w1) \<Rightarrow>
     (case install' e self w1 of
        (Inl x, w2) \<Rightarrow> (Inl x, w2)
      | (Inr install_result, w2) \<Rightarrow>
     (case (if result_type install_result \<noteq> INSTALL_ERROR
            then (case list' e self w2 of
                    (Inl x, w3) \<Rightarrow> (Inl x, w3)
                  | (Inr d, w3) \<Rightarrow> (Inr (Some d), w3))
            else (Inr None, w2)) of
        (Inl x, w3) \<Rightarrow> (Inl x, w3)
      | (Inr dep, w3) \<Rightarrow>
     (case (if result_type install_result = SUCCESS then check' e self w3
            else (Inr install_result, w3)) of
        (Inl x, w4) \<Rightarrow> (Inl x, w4)
      | (Inr install_result', w4) \<Rightarrow> (Inr (with_extra_attrs install_result' dep), w4)))))"

definition run :: "env \<Rightarrow> OneshotPipCheck \<Rightarrow> world \<Rightarrow> (exn + PipCheckResult) \<times> world" where
  "run e self w = run_steps e (self\<lparr>output_directory' := Some (mkdtemp e (tmp_path' self))\<rparr>) w"

definition check ::
  "env \<Rightarrow> string list \<Rightarrow> string list \<Rightarrow> string option \<Rightarrow> bool \<Rightarrow> world
     \<Rightarrow> (exn + PipCheckResult) \<times> world" where
  "check e pip_command requested tmp_path clean w =
     run e \<lparr>pip_command' = pip_command, packages' = requested, tmp_path' = tmp_path,
            output_directory' = None, clean' = clean\<rparr> w"

fun is_PipError :: "exn \<Rightarrow> bool" where
  "is_PipError (PipError command returncode stderr_path) = True"
| "is_PipError x = False"

section \<open>Concrete runs\<close>

text \<open>
  Concrete environments on which the properties below are exercised. The parser knows
  the handful of texts these environments produce; a command that is not in an
  environment's table exits with 0 and prints nothing; the decoder returns the bytes
  unchanged and rejects the byte \<^verbatim>\<open>0xFF\<close>, which no UTF-8 text contains.
\<close>

definition installed_six :: string where
  \<open>installed_six = ''[{"name": "six", "version": "1.10.0"}]''\<close>

definition installed_two :: string where
  \<open>installed_two =
     ''[{"name": "six", "version": "1.10.0"}, {"name": "pytz", "version": "2018.4"}]''\<close>

definition outdated_six :: string where
  \<open>outdated_six = ''[{"name": "six", "version": "1.10.0", "latest_version": "1.11.0"}]''\<close>

definition outdated_same :: string where
  \<open>outdated_same = ''[{"name": "six", "version": "1.10.0", "latest_version": "1.10.0"}]''\<close>

definition releases_six :: string where
  \<open>releases_six =
     ''{"releases": {"1.10.0": [{"upload_time": "2015-10-07T14:16:26"}], "1.11.0": [{"upload_time": "2017-09-17T18:46:53"}]}}''\<close>

definition no_releases :: string where
  \<open>no_releases = ''{"info": {}}''\<close>

definition demo_loads :: "string \<Rightarrow> json option" where
  "demo_loads = map_of
     [(''[]'', JArr []),
      (installed_six,
         JArr [JObj [(''name'', JStr ''six''), (''version'', JStr ''1.10.0'')]]),
      (installed_two,
         JArr [JObj [(''name'', JStr ''six''), (''version'', JStr ''1.10.0'')],
               JObj [(''name'', JStr ''pytz''), (''version'', JStr ''2018.4'')]]),
      (outdated_six,
         JArr [JObj [(''name'', JStr ''six''), (''version'', JStr ''1.10.0''),
                     (''latest_version'', JStr ''1.11.0'')]]),
      (outdated_same,
         JArr [JObj [(''name'', JStr ''six''), (''version'', JStr ''1.10.0''),
                     (''latest_version'', JStr ''1.10.0'')]]),
      (releases_six,
         JObj [(''releases'',
                JObj [(''1.10.0'', JArr [JObj [(''upload_time'', JStr ''2015-10-07T14:16:26'')]]),
                      (''1.11.0'', JArr [JObj [(''upload_time'', JStr ''2017-09-17T18:46:53'')]])])]),
      (no_releases, JObj [(''info'', JObj [])])]"

definition pip :: "string list" where
  "pip = [''python3'', ''-m'', ''pip'']"

definition pip_table ::
  "int \<times> string \<times> string \<Rightarrow> string \<Rightarrow> string \<Rightarrow> int \<times> string \<times> string
     \<Rightarrow> (string list \<times> int \<times> string \<times> string) list" where
  "pip_table install_outcome installed outdated check_outcome =
     [(pip @ [''install'', ''-U'', ''six''], install_outcome),
      (pip @ [''list'', ''--format=json''], (0, installed, [])),
      (pip @ [''list'', ''-o'', ''--format=json''], (0, outdated, [])),
      (pip @ [''check''], check_outcome)]"

definition demo_env ::
  "(string list \<times> int \<times> string \<times> string) list
     \<Rightarrow> (nat \<Rightarrow> json \<Rightarrow> json \<Rightarrow> http_outcome) \<Rightarrow> (nat \<Rightarrow> string) \<Rightarrow> env" where
  "demo_env table registry clock =
     \<lparr>subprocess_run = (\<lambda>c. case map_of table c of None \<Rightarrow> (0, [], []) | Some r \<Rightarrow> r),
      urlopen = registry, json_loads = demo_loads, now_isoformat = clock,
      mkdtemp = (\<lambda>d. ''/tmp/tmpab12cd''),
      decode = (\<lambda>bytes. if CHR 0xFF \<in> set bytes then None else Some bytes)\<rparr>"

definition installed_fine :: "int \<times> string \<times> string" where
  "installed_fine = (0, ''Successfully installed six-1.10.0'', [])"

definition check_fine :: "int \<times> string \<times> string" where
  "check_fine = (0, ''No broken requirements found.'', [])"

definition morning :: "nat \<Rightarrow> string" where
  "morning n = ''2018-06-14T13:46:04.180159''"

definition evening :: "nat \<Rightarrow> string" where
  "evening n = ''2018-06-14T21:03:11.000417''"

definition env_ok :: env where
  "env_ok = demo_env (pip_table installed_fine installed_six outdated_six check_fine)
              (\<lambda>n pkg_name pkg_version. Body releases_six) morning"

definition env_ok_later :: env where
  "env_ok_later = demo_env (pip_table installed_fine installed_six outdated_six check_fine)
                    (\<lambda>n pkg_name pkg_version. Body releases_six) evening"

definition env_same :: env where
  "env_same = demo_env (pip_table installed_fine installed_six outdated_same check_fine)
                (\<lambda>n pkg_name pkg_version. Body releases_six) morning"

definition env_broken :: env where
  "env_broken = demo_env
     (pip_table (1, [], ''No matching distribution found for six'') installed_six outdated_six
        check_fine)
     (\<lambda>n pkg_name pkg_version. Body releases_six) morning"

definition env_carriage_return :: env where
  "env_carriage_return = demo_env
     (pip_table (1, [], ''Collecting six'' @ [CHR 0x0D] @ ''ERROR: no match'')
        installed_six outdated_six check_fine)
     (\<lambda>n pkg_name pkg_version. Body releases_six) morning"

definition env_garbled :: env where
  "env_garbled = demo_env
     (pip_table (1, [], [CHR 0xFF, CHR 0xFE]) installed_six outdated_six check_fine)
     (\<lambda>n pkg_name pkg_version. Body releases_six) morning"

definition env_conflict_crlf :: env where
  "env_conflict_crlf = demo_env
     (pip_table installed_fine installed_six outdated_six
        (1, ''a 1.0 requires b'' @ [CHR 0x0D, CHR 0x0A] @ ''c 2.0 requires d'', []))
     (\<lambda>n pkg_name pkg_version. Body releases_six) morning"

definition env_conflict_garbled :: env where
  "env_conflict_garbled = demo_env
     (pip_table installed_fine installed_six outdated_six (1, [CHR 0xFF, CHR 0xFE], []))
     (\<lambda>n pkg_name pkg_version. Body releases_six) morning"

definition env_conflict :: env where
  "env_conflict = demo_env
     (pip_table installed_fine installed_six outdated_six
        (1, ''pkg-a has requirement six<3, but you have six 4.0.1.'', ''check failed''))
     (\<lambda>n pkg_name pkg_version. Body releases_six) morning"

definition env_not_found :: env where
  "env_not_found = demo_env (pip_table installed_fine installed_two ''[]'' check_fine)
                     (\<lambda>n pkg_name pkg_version. if n = 0 then HTTPError 404 else Body releases_six)
                     morning"

definition env_no_releases :: env where
  "env_no_releases = demo_env (pip_table installed_fine installed_six ''[]'' check_fine)
                       (\<lambda>n pkg_name pkg_version. Body no_releases) morning"

definition env_stale :: env where
  "env_stale = demo_env (pip_table installed_fine installed_two ''[]'' check_fine)
                 (\<lambda>n pkg_name pkg_version. if n = 0 then Body releases_six else Body no_releases)
                 morning"

definition env_unreachable :: env where
  "env_unreachable = demo_env (pip_table installed_fine installed_six outdated_six check_fine)
                       (\<lambda>n pkg_name pkg_version. Unreachable) morning"

definition env_answering :: "http_outcome \<Rightarrow> env" where
  "env_answering outcome =
     demo_env (pip_table installed_fine installed_six outdated_six check_fine)
       (\<lambda>n pkg_name pkg_version. outcome) morning"

definition env_freeze_fails :: env where
  "env_freeze_fails = demo_env
     ((pip @ [''freeze''], (2, [], ''ERROR: freeze failed''))
        # pip_table installed_fine installed_six outdated_six check_fine)
     (\<lambda>n pkg_name pkg_version. Body releases_six) morning"

definition self_six :: OneshotPipCheck where
  "self_six = \<lparr>pip_command' = pip, packages' = [''six''], tmp_path' = None,
                output_directory' = None, clean' = False\<rparr>"

definition self_ready :: OneshotPipCheck where
  "self_ready = self_six\<lparr>output_directory' := Some ''/tmp/tmpab12cd''\<rparr>"

definition w_init :: world where
  "w_init = \<lparr>files = (\<lambda>path. None), commands = [], requests = [], clock_reads = 0\<rparr>"

definition six_report :: "(json \<times> pkg_info) list" where
  "six_report =
     [(JStr ''six'',
       \<lparr>installed_version = JStr ''1.10.0'',
        installed_version_time = JStr ''2015-10-07T14:16:26'',
        latest_version = JStr ''1.11.0'',
        current_time = ''2018-06-14T13:46:04.180159'',
        latest_version_time = JStr ''2017-09-17T18:46:53'',
        is_latest = False\<rparr>)]"

definition same_info :: pkg_info where
  "same_info =
     \<lparr>installed_version = JStr ''1.10.0'',
      installed_version_time = JStr ''2015-10-07T14:16:26'',
      latest_version = JStr ''1.10.0'',
      current_time = ''2018-06-14T13:46:04.180159'',
      latest_version_time = JStr ''2015-10-07T14:16:26'',
      is_latest = True\<rparr>"

definition bare_info :: "string \<Rightarrow> pkg_info" where
  "bare_info version =
     \<lparr>installed_version = JStr version,
      installed_version_time = JNull,
      latest_version = JStr version,
      current_time = ''2018-06-14T13:46:04.180159'',
      latest_version_time = JNull,
      is_latest = True\<rparr>"

definition two_report :: "(json \<times> pkg_info) list" where
  "two_report = [(JStr ''six'', bare_info ''1.10.0''), (JStr ''pytz'', bare_info ''2018.4'')]"

definition later_report :: "(json \<times> pkg_info) list" where
  "later_report =
     [(JStr ''six'',
       \<lparr>installed_version = JStr ''1.10.0'',
        installed_version_time = JStr ''2015-10-07T14:16:26'',
        latest_version = JStr ''1.11.0'',
        current_time = ''2018-06-14T21:03:11.000417'',
        latest_version_time = JStr ''2017-09-17T18:46:53'',
        is_latest = False\<rparr>)]"

definition self_clean :: OneshotPipCheck where
  "self_clean = self_six\<lparr>clean' := True\<rparr>"

definition stale_report :: "(json \<times> pkg_info) list" where
  "stale_report =
     [(JStr ''six'',
       \<lparr>installed_version = JStr ''1.10.0'',
        installed_version_time = JStr ''2015-10-07T14:16:26'',
        latest_version = JStr ''1.10.0'',
        current_time = ''2018-06-14T13:46:04.180159'',
        latest_version_time = JStr ''2015-10-07T14:16:26'',
        is_latest = True\<rparr>),
      (JStr ''pytz'',
       \<lparr>installed_version = JStr ''2018.4'',
        installed_version_time = JStr ''2015-10-07T14:16:26'',
        latest_version = JStr ''2018.4'',
        current_time = ''2018-06-14T13:46:04.180159'',
        latest_version_time = JStr ''2015-10-07T14:16:26'',
        is_latest = True\<rparr>)]"

section \<open>Properties\<close>

lemmas step_defs =
  check_def run_def run_steps_def clean_block_def install'_def check'_def list'_def
  list_query_def list_loops_def list_body_def run_command'_def read'_def loads_output_def
  getsize_positive_def freeze'_def uninstall'_def build_command'_def os_path_join_def
  call_pypi_json_api'_def release_times_def upload_time_of_def merge_latest_def
  dict_contains_def dict_get_def dict_setitem_def datetime_now_def with_extra_attrs_def
  decode_text_def Let_def

lemmas demo_defs =
  demo_env_def demo_loads_def pip_table_def pip_def installed_six_def installed_two_def
  outdated_six_def outdated_same_def releases_six_def no_releases_def installed_fine_def
  check_fine_def morning_def evening_def self_six_def self_ready_def w_init_def
  six_report_def same_info_def bare_info_def two_report_def later_report_def
  self_clean_def stale_report_def

subsection \<open>The command runner\<close>

lemma run_command'_eq:
  "subprocess_run e command = (rc, out, err) \<Longrightarrow>
   run_command' e command stdout_path stderr_path raise_on_failure w =
     (if rc \<noteq> 0 \<and> raise_on_failure then Inl (PipError command rc stderr_path) else Inr rc,
      w\<lparr>files := (files w)(stdout_path \<mapsto> out, stderr_path \<mapsto> err),
        commands := commands w @ [command]\<rparr>)"
  by (simp add: run_command'_def)

text \<open>
  C7. Let the external command exit with \<open>returncode\<close> and print \<open>out\<close> and \<open>err\<close>, and let
  the caller name two different files. If \<^verbatim>\<open>raise_on_failure\<close> is set and the exit code is
  non-zero, \<^verbatim>\<open>_run_command\<close> raises \<^verbatim>\<open>PipError\<close> carrying exactly the command, the exit
  code and the path of the standard-error file; in every other case, and so whenever the
  flag is not set, it returns the exit code and nothing else. In all cases the first file
  holds the standard output and the second the standard error afterwards.
\<close>

theorem run_command_contract:
  assumes "subprocess_run e command = (returncode, out, err)"
      and "stdout_path \<noteq> stderr_path"
  shows "fst (run_command' e command stdout_path stderr_path raise_on_failure w) =
           (if returncode \<noteq> 0 \<and> raise_on_failure
            then Inl (PipError command returncode stderr_path) else Inr returncode)
       \<and> files (snd (run_command' e command stdout_path stderr_path raise_on_failure w))
             stdout_path = Some out
       \<and> files (snd (run_command' e command stdout_path stderr_path raise_on_failure w))
             stderr_path = Some err"
  using assms by (simp add: run_command'_eq)

theorem run_command_contract_witness:
  "subprocess_run env_freeze_fails (pip @ [''freeze'']) = (2, [], ''ERROR: freeze failed'')
   \<and> ''/tmp/d/out.txt'' \<noteq> ''/tmp/d/err.txt''
   \<and> fst (run_command' env_freeze_fails (pip @ [''freeze'']) ''/tmp/d/out.txt''
            ''/tmp/d/err.txt'' True w_init)
       = Inl (PipError (pip @ [''freeze'']) 2 ''/tmp/d/err.txt'')
   \<and> fst (run_command' env_freeze_fails (pip @ [''freeze'']) ''/tmp/d/out.txt''
            ''/tmp/d/err.txt'' False w_init)
       = Inr 2
   \<and> files (snd (run_command' env_freeze_fails (pip @ [''freeze'']) ''/tmp/d/out.txt''
                   ''/tmp/d/err.txt'' True w_init)) ''/tmp/d/err.txt''
       = Some ''ERROR: freeze failed''"
proof -
  have h1: "subprocess_run env_freeze_fails (pip @ [''freeze'']) = (2, [], ''ERROR: freeze failed'')"
    by (simp add: env_freeze_fails_def demo_defs)
  have h2: "''/tmp/d/out.txt'' \<noteq> ''/tmp/d/err.txt''"
    by simp
  show ?thesis
    using h1 h2 run_command_contract [OF h1 h2, of True w_init]
      run_command_contract [OF h1 h2, of False w_init]
    by simp
qed

subsection \<open>The steps and the classification of a run\<close>

lemma os_path_join_eq_iff:
  "a \<noteq> [] \<Longrightarrow> hd a \<noteq> CHR ''/'' \<Longrightarrow> b \<noteq> [] \<Longrightarrow> hd b \<noteq> CHR ''/''
     \<Longrightarrow> (os_path_join d a = os_path_join d b) = (a = b)"
  by (auto simp: os_path_join_def)

lemma universal_newlines_id: "CHR 0x0D \<notin> set s \<Longrightarrow> universal_newlines s = s"
  by (induction s rule: universal_newlines.induct) auto

lemma install'_eq:
  assumes "output_directory' self = Some d"
      and "subprocess_run e (build_command' self ([''install'', ''-U''] @ packages' self)) = (rc, out, err)"
  shows "install' e self w =
     (if rc \<noteq> 0
      then (case decode_text e err of
              None \<Rightarrow> Inl UnicodeDecodeError
            | Some text \<Rightarrow>
                Inr \<lparr>packages = packages' self, result_type = INSTALL_ERROR,
                     result_text = Some text, dependency_info = None\<rparr>)
      else Inr \<lparr>packages = packages' self, result_type = SUCCESS,
                result_text = None, dependency_info = None\<rparr>,
      w\<lparr>files := (files w)(os_path_join d ''install-out.txt'' \<mapsto> out,
                             os_path_join d ''install-error.txt'' \<mapsto> err),
        commands := commands w @ [build_command' self ([''install'', ''-U''] @ packages' self)]\<rparr>)"
  using assms
  by (simp add: install'_def run_command'_eq read'_def split: option.splits)

lemma check'_eq:
  assumes "output_directory' self = Some d"
      and "subprocess_run e (build_command' self [''check'']) = (rc, out, err)"
  shows "check' e self w =
     (if rc \<noteq> 0
      then (case decode_text e out of
              None \<Rightarrow> Inl UnicodeDecodeError
            | Some text \<Rightarrow>
                Inr \<lparr>packages = packages' self, result_type = CHECK_WARNING,
                     result_text = Some text, dependency_info = None\<rparr>)
      else Inr \<lparr>packages = packages' self, result_type = SUCCESS,
                result_text = None, dependency_info = None\<rparr>,
      w\<lparr>files := (files w)(os_path_join d ''check-out.txt'' \<mapsto> out,
                             os_path_join d ''check-error.txt'' \<mapsto> err),
        commands := commands w @ [build_command' self [''check'']]\<rparr>)"
  using assms
  by (simp add: check'_def run_command'_eq read'_def os_path_join_eq_iff split: option.splits)

lemma build_command'_dir [simp]:
  "build_command' (self\<lparr>output_directory' := d\<rparr>) sub = build_command' self sub"
  by (simp add: build_command'_def)

text \<open>
  C1, as the code has it. Suppose the clean block (when requested) did not raise, so that
  the install step is reached, and the install command exits with a non-zero code. The
  standard error it wrote is read back by \<^verbatim>\<open>_read\<close> in text mode. If it can be decoded in
  the locale's encoding, \<^verbatim>\<open>run\<close> returns a result of kind \<^verbatim>\<open>INSTALL_ERROR\<close> with no
  dependency report, whose text is the decoded standard error with every \<^verbatim>\<open>\r\n\<close> and
  \<^verbatim>\<open>\r\<close> turned into \<^verbatim>\<open>\n\<close>; if it cannot, \<^verbatim>\<open>run\<close> raises \<^verbatim>\<open>UnicodeDecodeError\<close>. Either
  way, after the clean block the install command is the only command executed, no
  registry request is sent and the clock is not read: neither \<^verbatim>\<open>_list\<close> nor \<^verbatim>\<open>_check\<close>
  runs.
\<close>

theorem install_error_result:
  assumes "clean_block e (self\<lparr>output_directory' := Some (mkdtemp e (tmp_path' self))\<rparr>) w = (Inr (), w1)"
      and "subprocess_run e (build_command' self ([''install'', ''-U''] @ packages' self)) = (rc, out, err)"
      and "rc \<noteq> 0"
  shows "fst (run e self w) =
           (case decode_text e err of
              None \<Rightarrow> Inl UnicodeDecodeError
            | Some text \<Rightarrow>
                Inr \<lparr>packages = packages' self, result_type = INSTALL_ERROR,
                     result_text = Some text, dependency_info = None\<rparr>)
       \<and> commands (snd (run e self w)) =
           commands w1 @ [build_command' self ([''install'', ''-U''] @ packages' self)]
       \<and> requests (snd (run e self w)) = requests w1
       \<and> clock_reads (snd (run e self w)) = clock_reads w1"
proof -
  let ?self = "self\<lparr>output_directory' := Some (mkdtemp e (tmp_path' self))\<rparr>"
  have "output_directory' ?self = Some (mkdtemp e (tmp_path' self))" by simp
  from install'_eq [OF this, of e rc out err w1] assms(2,3)
  have inst: "install' e ?self w1 =
     (case decode_text e err of
        None \<Rightarrow> Inl UnicodeDecodeError
      | Some text \<Rightarrow>
          Inr \<lparr>packages = packages' self, result_type = INSTALL_ERROR,
               result_text = Some text, dependency_info = None\<rparr>,
      w1\<lparr>files := (files w1)(os_path_join (mkdtemp e (tmp_path' self)) ''install-out.txt'' \<mapsto> out,
                             os_path_join (mkdtemp e (tmp_path' self)) ''install-error.txt'' \<mapsto> err),
        commands := commands w1 @ [build_command' self ([''install'', ''-U''] @ packages' self)]\<rparr>)"
    by (simp split: option.splits)
  show ?thesis
    by (cases "decode_text e err")
       (simp_all add: run_def run_steps_def assms(1) inst with_extra_attrs_def)
qed

theorem install_error_result_witness:
  "clean_block env_broken (self_six\<lparr>output_directory' := Some (mkdtemp env_broken (tmp_path' self_six))\<rparr>) w_init
     = (Inr (), w_init)
   \<and> subprocess_run env_broken (build_command' self_six ([''install'', ''-U''] @ packages' self_six))
     = (1, [], ''No matching distribution found for six'')
   \<and> decode_text env_broken ''No matching distribution found for six''
     = Some ''No matching distribution found for six''
   \<and> fst (run env_broken self_six w_init) =
       Inr \<lparr>packages = [''six''], result_type = INSTALL_ERROR,
            result_text = Some ''No matching distribution found for six'', dependency_info = None\<rparr>
   \<and> commands (snd (run env_broken self_six w_init)) = [pip @ [''install'', ''-U'', ''six'']]
   \<and> requests (snd (run env_broken self_six w_init)) = []"
proof -
  have h1: "clean_block env_broken (self_six\<lparr>output_directory' := Some (mkdtemp env_broken (tmp_path' self_six))\<rparr>) w_init
     = (Inr (), w_init)"
    by (simp add: clean_block_def self_six_def)
  have h2: "subprocess_run env_broken (build_command' self_six ([''install'', ''-U''] @ packages' self_six))
     = (1, [], ''No matching distribution found for six'')"
    by (simp add: env_broken_def build_command'_def demo_defs)
  have h3: "(1::int) \<noteq> 0" by simp
  have d: "decode_text env_broken ''No matching distribution found for six''
     = Some ''No matching distribution found for six''"
    by (simp add: decode_text_def env_broken_def demo_env_def)
  show ?thesis
    using h1 h2 d install_error_result [OF h1 h2 h3]
    by (simp add: build_command'_def self_six_def w_init_def)
qed

text \<open>
  The claim as stated fails: a carriage return in the standard error of the install
  command comes back as a line feed, so the text differs from what was captured; and
  a standard error that is not valid in the locale's encoding makes \<^verbatim>\<open>run\<close> raise
  instead of returning a result.
\<close>

theorem install_error_text_counterexample:
  "snd (snd (subprocess_run env_carriage_return (pip @ [''install'', ''-U'', ''six''])))
     = ''Collecting six'' @ [CHR 0x0D] @ ''ERROR: no match''
   \<and> fst (run env_carriage_return self_six w_init) =
       Inr \<lparr>packages = [''six''], result_type = INSTALL_ERROR,
            result_text = Some (''Collecting six'' @ [CHR 0x0A] @ ''ERROR: no match''),
            dependency_info = None\<rparr>
   \<and> ''Collecting six'' @ [CHR 0x0A] @ ''ERROR: no match''
       \<noteq> ''Collecting six'' @ [CHR 0x0D] @ ''ERROR: no match''
   \<and> snd (snd (subprocess_run env_garbled (pip @ [''install'', ''-U'', ''six''])))
     = [CHR 0xFF, CHR 0xFE]
   \<and> fst (run env_garbled self_six w_init) = Inl UnicodeDecodeError"
  by (simp add: step_defs env_carriage_return_def env_garbled_def demo_defs)

text \<open>
  C2, as the code has it. Suppose the clean block (when requested) did not raise, the
  install command exits with 0, and the enrichment step \<^verbatim>\<open>_list\<close> returns a report, so that
  the consistency check is reached. If the check command exits with 0, \<^verbatim>\<open>run\<close> returns
  \<^verbatim>\<open>SUCCESS\<close> with no text. If it exits with a non-zero code, its standard output (not its
  standard error) is read back by \<^verbatim>\<open>_read\<close> in text mode: if it can be decoded, \<^verbatim>\<open>run\<close>
  returns \<^verbatim>\<open>CHECK_WARNING\<close> whose text is the decoded standard output with every
  \<^verbatim>\<open>\r\n\<close> and \<^verbatim>\<open>\r\<close> turned into \<^verbatim>\<open>\n\<close>; if it cannot, \<^verbatim>\<open>run\<close> raises
  \<^verbatim>\<open>UnicodeDecodeError\<close>.
\<close>

theorem check_decides_result:
  assumes "clean_block e (self\<lparr>output_directory' := Some (mkdtemp e (tmp_path' self))\<rparr>) w = (Inr (), w1)"
      and "subprocess_run e (build_command' self ([''install'', ''-U''] @ packages' self)) = (0, iout, ierr)"
      and "list' e (self\<lparr>output_directory' := Some (mkdtemp e (tmp_path' self))\<rparr>)
             (snd (install' e (self\<lparr>output_directory' := Some (mkdtemp e (tmp_path' self))\<rparr>) w1))
           = (Inr dep, w3)"
      and "subprocess_run e (build_command' self [''check'']) = (rc, out, err)"
  shows "fst (run e self w) =
           (if rc \<noteq> 0
            then (case decode_text e out of
                    None \<Rightarrow> Inl UnicodeDecodeError
                  | Some text \<Rightarrow>
                      Inr \<lparr>packages = packages' self, result_type = CHECK_WARNING,
                           result_text = Some text, dependency_info = Some dep\<rparr>)
            else Inr \<lparr>packages = packages' self, result_type = SUCCESS,
                      result_text = None, dependency_info = Some dep\<rparr>)"
proof -
  let ?self = "self\<lparr>output_directory' := Some (mkdtemp e (tmp_path' self))\<rparr>"
  have dir: "output_directory' ?self = Some (mkdtemp e (tmp_path' self))" by simp
  from install'_eq [OF dir, of e 0 iout ierr w1] assms(2)
  have inst: "install' e ?self w1 =
     (Inr \<lparr>packages = packages' self, result_type = SUCCESS,
           result_text = None, dependency_info = None\<rparr>, snd (install' e ?self w1))"
    by simp
  from check'_eq [OF dir, of e rc out err w3] assms(4)
  have chk: "fst (check' e ?self w3) =
     (if rc \<noteq> 0
      then (case decode_text e out of
              None \<Rightarrow> Inl UnicodeDecodeError
            | Some text \<Rightarrow>
                Inr \<lparr>packages = packages' self, result_type = CHECK_WARNING,
                     result_text = Some text, dependency_info = None\<rparr>)
      else Inr \<lparr>packages = packages' self, result_type = SUCCESS,
                result_text = None, dependency_info = None\<rparr>)"
    by (simp split: option.splits)
  obtain r4 w4 where c4: "check' e ?self w3 = (r4, w4)" by (cases "check' e ?self w3")
  with chk have r4: "r4 =
     (if rc \<noteq> 0
      then (case decode_text e out of
              None \<Rightarrow> Inl UnicodeDecodeError
            | Some text \<Rightarrow>
                Inr \<lparr>packages = packages' self, result_type = CHECK_WARNING,
                     result_text = Some text, dependency_info = None\<rparr>)
      else Inr \<lparr>packages = packages' self, result_type = SUCCESS,
                result_text = None, dependency_info = None\<rparr>)" by simp
  obtain r2 w2 where i2: "install' e ?self w1 = (r2, w2)" by (cases "install' e ?self w1")
  with inst have r2: "r2 = Inr \<lparr>packages = packages' self, result_type = SUCCESS,
           result_text = None, dependency_info = None\<rparr>" by simp
  from assms(3) i2 have l3: "list' e ?self w2 = (Inr dep, w3)" by simp
  show ?thesis
    unfolding run_def run_steps_def
    by (cases "decode_text e out")
       (simp_all add: assms(1) i2 r2 l3 c4 r4 with_extra_attrs_def)
qed

lemma run_env_ok:
  "fst (run env_ok self_six w_init) =
     Inr \<lparr>packages = [''six''], result_type = SUCCESS, result_text = None,
          dependency_info = Some six_report\<rparr>"
  by (simp add: step_defs env_ok_def demo_defs six_report_def)

lemma run_env_conflict:
  "fst (run env_conflict self_six w_init) =
     Inr \<lparr>packages = [''six''], result_type = CHECK_WARNING,
          result_text = Some ''pkg-a has requirement six<3, but you have six 4.0.1.'',
          dependency_info = Some six_report\<rparr>"
  by (simp add: step_defs env_conflict_def demo_defs six_report_def)

lemma run_env_broken:
  "fst (run env_broken self_six w_init) =
     Inr \<lparr>packages = [''six''], result_type = INSTALL_ERROR,
          result_text = Some ''No matching distribution found for six'',
          dependency_info = None\<rparr>"
  by (simp add: step_defs env_broken_def demo_defs)

theorem check_decides_result_witness:
  "decode_text env_conflict ''pkg-a has requirement six<3, but you have six 4.0.1.''
     = Some ''pkg-a has requirement six<3, but you have six 4.0.1.''
   \<and> fst (run env_conflict self_six w_init) =
     Inr \<lparr>packages = [''six''], result_type = CHECK_WARNING,
          result_text = Some ''pkg-a has requirement six<3, but you have six 4.0.1.'',
          dependency_info = Some six_report\<rparr>
   \<and> fst (run env_ok self_six w_init) =
     Inr \<lparr>packages = [''six''], result_type = SUCCESS, result_text = None,
          dependency_info = Some six_report\<rparr>"
proof -
  let ?s = "self_six\<lparr>output_directory' := Some (mkdtemp env_conflict (tmp_path' self_six))\<rparr>"
  let ?t = "self_six\<lparr>output_directory' := Some (mkdtemp env_ok (tmp_path' self_six))\<rparr>"
  have a1: "clean_block env_conflict ?s w_init = (Inr (), w_init)"
    by (simp add: clean_block_def self_six_def)
  have a2: "subprocess_run env_conflict
              (build_command' self_six ([''install'', ''-U''] @ packages' self_six))
            = (0, ''Successfully installed six-1.10.0'', [])"
    by (simp add: env_conflict_def build_command'_def demo_defs)
  have a3: "list' env_conflict ?s (snd (install' env_conflict ?s w_init))
            = (Inr six_report, snd (list' env_conflict ?s (snd (install' env_conflict ?s w_init))))"
    by (simp add: prod_eq_iff step_defs env_conflict_def demo_defs)
  have a4: "subprocess_run env_conflict (build_command' self_six [''check''])
            = (1, ''pkg-a has requirement six<3, but you have six 4.0.1.'', ''check failed'')"
    by (simp add: env_conflict_def build_command'_def demo_defs)
  have a5: "decode_text env_conflict ''pkg-a has requirement six<3, but you have six 4.0.1.''
            = Some ''pkg-a has requirement six<3, but you have six 4.0.1.''"
    by (simp add: decode_text_def env_conflict_def demo_env_def)
  have b1: "clean_block env_ok ?t w_init = (Inr (), w_init)"
    by (simp add: clean_block_def self_six_def)
  have b2: "subprocess_run env_ok
              (build_command' self_six ([''install'', ''-U''] @ packages' self_six))
            = (0, ''Successfully installed six-1.10.0'', [])"
    by (simp add: env_ok_def build_command'_def demo_defs)
  have b3: "list' env_ok ?t (snd (install' env_ok ?t w_init))
            = (Inr six_report, snd (list' env_ok ?t (snd (install' env_ok ?t w_init))))"
    by (simp add: prod_eq_iff step_defs env_ok_def demo_defs)
  have b4: "subprocess_run env_ok (build_command' self_six [''check''])
            = (0, ''No broken requirements found.'', [])"
    by (simp add: env_ok_def build_command'_def demo_defs)
  show ?thesis
    using a5 check_decides_result [OF a1 a2 a3 a4] check_decides_result [OF b1 b2 b3 b4]
    by (simp add: self_six_def)
qed

text \<open>
  The claim as stated fails: a \<^verbatim>\<open>\r\n\<close> in the standard output of the check command comes
  back as \<^verbatim>\<open>\n\<close>, so the text differs from what was captured; and a standard output that
  is not valid in the locale's encoding makes \<^verbatim>\<open>run\<close> raise although the install
  succeeded.
\<close>

theorem check_text_counterexample:
  "subprocess_run env_conflict_crlf (pip @ [''check''])
     = (1, ''a 1.0 requires b'' @ [CHR 0x0D, CHR 0x0A] @ ''c 2.0 requires d'', [])
   \<and> fst (run env_conflict_crlf self_six w_init) =
       Inr \<lparr>packages = [''six''], result_type = CHECK_WARNING,
            result_text = Some (''a 1.0 requires b'' @ [CHR 0x0A] @ ''c 2.0 requires d''),
            dependency_info = Some six_report\<rparr>
   \<and> ''a 1.0 requires b'' @ [CHR 0x0A] @ ''c 2.0 requires d''
       \<noteq> ''a 1.0 requires b'' @ [CHR 0x0D, CHR 0x0A] @ ''c 2.0 requires d''
   \<and> subprocess_run env_conflict_garbled (pip @ [''install'', ''-U'', ''six'']) = installed_fine
   \<and> subprocess_run env_conflict_garbled (pip @ [''check'']) = (1, [CHR 0xFF, CHR 0xFE], [])
   \<and> fst (run env_conflict_garbled self_six w_init) = Inl UnicodeDecodeError"
  by (simp add: step_defs env_conflict_crlf_def env_conflict_garbled_def demo_defs)

lemma install'_cases:
  "install' e self w = (Inr r, w') \<Longrightarrow>
     dependency_info r = None \<and>
     ((result_type r = INSTALL_ERROR \<and> result_text r \<noteq> None) \<or>
      (result_type r = SUCCESS \<and> result_text r = None))"
  by (auto simp: install'_def run_command'_def read'_def Let_def
           split: option.splits prod.splits sum.splits if_splits)

lemma check'_cases:
  "check' e self w = (Inr r, w') \<Longrightarrow>
     dependency_info r = None \<and>
     ((result_type r = CHECK_WARNING \<and> result_text r \<noteq> None) \<or>
      (result_type r = SUCCESS \<and> result_text r = None))"
  by (auto simp: check'_def run_command'_def read'_def Let_def
           split: option.splits prod.splits sum.splits if_splits)

text \<open>
  C3. Whenever \<^verbatim>\<open>run\<close> returns a result, its dependency report is present (not
  \<^verbatim>\<open>None\<close>) exactly when its kind is not \<^verbatim>\<open>INSTALL_ERROR\<close>, and its text is present
  exactly when its kind is not \<^verbatim>\<open>SUCCESS\<close>.
\<close>

theorem run_result_invariants:
  assumes "fst (run e self w) = Inr res"
  shows "(dependency_info res \<noteq> None \<longleftrightarrow> result_type res \<noteq> INSTALL_ERROR)
       \<and> (result_text res \<noteq> None \<longleftrightarrow> result_type res \<noteq> SUCCESS)"
  using assms unfolding run_def run_steps_def
  by (auto simp: with_extra_attrs_def split: prod.splits sum.splits if_splits
           dest!: install'_cases check'_cases)

theorem run_result_invariants_witness:
  "fst (run env_ok self_six w_init) =
     Inr \<lparr>packages = [''six''], result_type = SUCCESS, result_text = None,
          dependency_info = Some six_report\<rparr>
   \<and> fst (run env_conflict self_six w_init) =
     Inr \<lparr>packages = [''six''], result_type = CHECK_WARNING,
          result_text = Some ''pkg-a has requirement six<3, but you have six 4.0.1.'',
          dependency_info = Some six_report\<rparr>
   \<and> fst (run env_broken self_six w_init) =
     Inr \<lparr>packages = [''six''], result_type = INSTALL_ERROR,
          result_text = Some ''No matching distribution found for six'',
          dependency_info = None\<rparr>
   \<and> (dependency_info \<lparr>packages = [''six''], result_type = INSTALL_ERROR,
          result_text = Some ''No matching distribution found for six'',
          dependency_info = None\<rparr> \<noteq> None
        \<longleftrightarrow> result_type \<lparr>packages = [''six''], result_type = INSTALL_ERROR,
          result_text = Some ''No matching distribution found for six'',
          dependency_info = None\<rparr> \<noteq> INSTALL_ERROR)"
  using run_env_ok run_env_conflict run_env_broken
    run_result_invariants [OF run_env_ok] run_result_invariants [OF run_env_conflict]
    run_result_invariants [OF run_env_broken]
  by simp

subsection \<open>Equality and dicts\<close>

lemma py_eq_refl: "py_eq a a"
proof (induction a)
  case (JArr xs)
  have "\<And>x y. (x, y) \<in> set (zip xs xs) \<Longrightarrow> py_eq x y"
    using JArr by (auto simp: set_zip)
  then show ?case by auto
next
  case (JObj kvs)
  have "\<exists>v. map_of kvs k = Some v \<and> py_eq v v" if "k \<in> fst ` set kvs" for k
  proof -
    from that obtain v where v: "map_of kvs k = Some v"
      by (meson map_of_eq_None_iff not_Some_eq)
    then have "(k, v) \<in> set kvs" by (rule map_of_SomeD)
    then have "py_eq v v" using JObj by fastforce
    with v show ?thesis by blast
  qed
  then show ?case by fastforce
qed simp_all

lemma py_eq_sym_hashable: "py_hashable a \<Longrightarrow> py_eq a b = py_eq b a"
  by (cases a; cases b; simp) auto

lemma py_eq_key_cong:
  "py_hashable k \<Longrightarrow> py_hashable n \<Longrightarrow> py_eq k n \<Longrightarrow> py_eq k' k = py_eq k' n"
  by (cases k; cases n; simp; cases k'; simp split: if_splits)

lemma py_eq_str [simp]: "py_eq k (JStr s) = (k = JStr s)"
  by (cases k) auto

lemma dict_lookup_cong:
  "py_hashable k \<Longrightarrow> py_hashable n \<Longrightarrow> py_eq k n \<Longrightarrow> dict_lookup d k = dict_lookup d n"
proof (induction d)
  case Nil
  show ?case by simp
next
  case (Cons a d)
  obtain k' v where a: "a = (k', v)" by (cases a)
  have "py_eq k' k = py_eq k' n"
    using Cons.prems by (rule py_eq_key_cong)
  with Cons a show ?case by simp
qed

lemma dict_lookup_None_iff:
  "dict_lookup d k = None \<longleftrightarrow> (\<forall>k' \<in> fst ` set d. \<not> py_eq k' k)"
  by (induction d) (auto split: if_splits)

lemma keys_dict_update:
  "map fst (dict_update d k v) =
     (if dict_lookup d k = None then map fst d @ [k] else map fst d)"
  by (induction d) (auto split: if_splits)

lemma set_dict_update:
  "(k', v') \<in> set (dict_update d k v) \<Longrightarrow>
     (k', v') \<in> set d \<or> (v' = v \<and> (k' = k \<or> (k' \<in> fst ` set d \<and> py_eq k' k)))"
  by (induction d) (auto split: if_splits)

subsection \<open>The enrichment loops\<close>

lemma snd_call_pypi_json_api':
  "snd (call_pypi_json_api' e n v w) = w\<lparr>requests := requests w @ [(n, v)]\<rparr>"
  by (simp add: call_pypi_json_api'_def Let_def split: http_outcome.splits option.splits)

lemma merge_latest_Inr:
  assumes "merge_latest od n iv = Inr (lv, il)"
  shows "py_hashable n"
    and "il = py_eq lv iv"
    and "dict_lookup od n = None \<Longrightarrow> lv = iv \<and> il"
    and "dict_lookup od n = Some v \<Longrightarrow> lv = v"
  using assms
  by (auto simp: merge_latest_def dict_contains_def dict_get_def py_eq_refl
           split: if_splits sum.splits)

lemma list_body_Inr:
  assumes "list_body e od pkg st w = (Inr st', w')"
  obtains n iv lv il result it lt lr ir where
    "py_get pkg (JStr ''name'') = Inr n"
    "py_get pkg (JStr ''version'') = Inr iv"
    "merge_latest od n iv = Inr (lv, il)"
    "fst (call_pypi_json_api' e n lv w) = Inr result"
    "release_times result lv iv (latest_release st) (installed_release st) = Inr ((it, lt), (lr, ir))"
    "st' = \<lparr>pkg_version_date = dict_update (pkg_version_date st) n
               \<lparr>installed_version = iv, installed_version_time = it, latest_version = lv,
                current_time = now_isoformat e (clock_reads w), latest_version_time = lt,
                is_latest = il\<rparr>,
            latest_release = lr, installed_release = ir\<rparr>"
    "w' = w\<lparr>requests := requests w @ [(n, lv)], clock_reads := Suc (clock_reads w)\<rparr>"
proof -
  from assms obtain n where n: "py_get pkg (JStr ''name'') = Inr n"
    by (auto simp: list_body_def split: sum.splits)
  from assms n obtain iv where iv: "py_get pkg (JStr ''version'') = Inr iv"
    by (auto simp: list_body_def split: sum.splits)
  from assms n iv obtain lv il where m: "merge_latest od n iv = Inr (lv, il)"
    by (auto simp: list_body_def split: sum.splits)
  obtain r1 w1 where c: "call_pypi_json_api' e n lv w = (r1, w1)"
    by (cases "call_pypi_json_api' e n lv w")
  have w1: "w1 = w\<lparr>requests := requests w @ [(n, lv)]\<rparr>"
    using snd_call_pypi_json_api' [of e n lv w] c by simp
  from assms n iv m c obtain result where r1: "r1 = Inr result"
    by (auto simp: list_body_def split: sum.splits)
  from assms n iv m c r1 obtain it lt lr ir where
    rt: "release_times result lv iv (latest_release st) (installed_release st) = Inr ((it, lt), (lr, ir))"
    by (auto simp: list_body_def split: sum.splits)
  from assms n iv m c r1 rt w1 have
    "st' = \<lparr>pkg_version_date = dict_update (pkg_version_date st) n
               \<lparr>installed_version = iv, installed_version_time = it, latest_version = lv,
                current_time = now_isoformat e (clock_reads w), latest_version_time = lt,
                is_latest = il\<rparr>,
            latest_release = lr, installed_release = ir\<rparr>"
    and "w' = w\<lparr>requests := requests w @ [(n, lv)], clock_reads := Suc (clock_reads w)\<rparr>"
    by (auto simp: list_body_def datetime_now_def)
  with n iv m c r1 rt that show thesis by simp
qed

lemma list_loop_invariant:
  assumes "list_loop e od pkgs st w = (Inr st', w')"
      and "I st"
      and "\<And>pkg s u s1 u1. pkg \<in> set pkgs \<Longrightarrow> I s \<Longrightarrow> list_body e od pkg s u = (Inr s1, u1) \<Longrightarrow> I s1"
  shows "I st'"
  using assms
proof (induction pkgs arbitrary: st w)
  case Nil
  then show ?case by simp
next
  case (Cons pkg rest)
  from Cons.prems(1) obtain s1 u1 where
    b: "list_body e od pkg st w = (Inr s1, u1)" and
    l: "list_loop e od rest s1 u1 = (Inr st', w')"
    by (auto split: prod.splits sum.splits)
  have "I s1" using Cons.prems(3) [of pkg st w s1 u1] Cons.prems(2) b by simp
  then show ?case
  proof (rule Cons.IH [OF l])
    fix p s u s2 u2
    assume "p \<in> set rest" "I s" "list_body e od p s u = (Inr s2, u2)"
    then show "I s2" using Cons.prems(3) [of p s u s2 u2] by simp
  qed
qed

lemma list_query_eq:
  assumes "std_out_path \<noteq> std_err_path"
  shows "list_query e self sub std_out_path std_err_path w =
     (loads_output e (fst (snd (subprocess_run e (build_command' self sub)))),
      w\<lparr>files := (files w)(std_out_path \<mapsto> fst (snd (subprocess_run e (build_command' self sub))),
                             std_err_path \<mapsto> snd (snd (subprocess_run e (build_command' self sub)))),
        commands := commands w @ [build_command' self sub]\<rparr>)"
  using assms
  by (cases "subprocess_run e (build_command' self sub)")
     (auto simp: list_query_def run_command'_def read'_def loads_output_def
           split: option.splits)

lemma list_query_world:
  "std_out_path \<noteq> std_err_path \<Longrightarrow>
   requests (snd (list_query e self sub std_out_path std_err_path w)) = requests w
   \<and> clock_reads (snd (list_query e self sub std_out_path std_err_path w)) = clock_reads w"
  by (simp add: list_query_eq)

text \<open>What \<^verbatim>\<open>_list\<close> returns is what its two loops make of the two parsed outputs.\<close>

lemma list'_Inr:
  assumes "fst (list' e self w) = Inr report"
  obtains a b u where
    "loads_output e (fst (snd (subprocess_run e (build_command' self [''list'', ''--format=json''])))) = Inr a"
    "loads_output e (fst (snd (subprocess_run e (build_command' self [''list'', ''-o'', ''--format=json''])))) = Inr b"
    "requests u = requests w" "clock_reads u = clock_reads w"
    "fst (list_loops e a b u) = Inr report"
proof -
  from assms obtain d where d: "output_directory' self = Some d"
    by (auto simp: list'_def split: option.splits)
  have p1: "os_path_join d ''list-out.txt'' \<noteq> os_path_join d ''list-error.txt''"
    by (simp add: os_path_join_eq_iff)
  have p2: "os_path_join d ''list-outdate-out.txt'' \<noteq> os_path_join d ''list-outdate-error.txt''"
    by (simp add: os_path_join_eq_iff)
  let ?w1 = "snd (list_query e self [''list'', ''--format=json'']
                   (os_path_join d ''list-out.txt'') (os_path_join d ''list-error.txt'') w)"
  let ?w2 = "snd (list_query e self [''list'', ''-o'', ''--format=json'']
                   (os_path_join d ''list-outdate-out.txt'')
                   (os_path_join d ''list-outdate-error.txt'') ?w1)"
  have u: "requests ?w2 = requests w" "clock_reads ?w2 = clock_reads w"
    using list_query_world [OF p1] list_query_world [OF p2] by simp_all
  from assms d obtain a where
    a: "loads_output e (fst (snd (subprocess_run e (build_command' self [''list'', ''--format=json''])))) = Inr a"
    by (auto simp: list'_def list_query_eq [OF p1] split: sum.splits)
  from assms d a obtain b where
    b: "loads_output e (fst (snd (subprocess_run e (build_command' self [''list'', ''-o'', ''--format=json''])))) = Inr b"
    by (auto simp: list'_def list_query_eq [OF p1] list_query_eq [OF p2] split: sum.splits)
  from assms d a b have "fst (list_loops e a b ?w2) = Inr report"
    by (simp add: list'_def list_query_eq [OF p1] list_query_eq [OF p2])
  with a b u show thesis by (rule that)
qed

lemma list_loops_Inr:
  assumes "fst (list_loops e a b u) = Inr report"
  obtains latest_items od items st u' where
    "py_iter b = Inr latest_items"
    "outdated_loop latest_items [] = Inr od"
    "py_iter a = Inr items"
    "list_loop e od items
       \<lparr>pkg_version_date = [], latest_release = None, installed_release = None\<rparr> u = (Inr st, u')"
    "report = pkg_version_date st"
  using assms
  by (auto simp: list_loops_def split: sum.splits prod.splits)

lemma list_body_snapshot:
  assumes b: "list_body e od pkg s u = (Inr s1, u1)"
      and inv: "\<forall>(k, info) \<in> set (pkg_version_date s). py_hashable k \<and>
                  is_latest info = py_eq (latest_version info) (installed_version info) \<and>
                  (dict_lookup od k = None \<longrightarrow>
                     latest_version info = installed_version info \<and> is_latest info) \<and>
                  (\<forall>v. dict_lookup od k = Some v \<longrightarrow> latest_version info = v)"
  shows "\<forall>(k, info) \<in> set (pkg_version_date s1). py_hashable k \<and>
                  is_latest info = py_eq (latest_version info) (installed_version info) \<and>
                  (dict_lookup od k = None \<longrightarrow>
                     latest_version info = installed_version info \<and> is_latest info) \<and>
                  (\<forall>v. dict_lookup od k = Some v \<longrightarrow> latest_version info = v)"
proof -
  from b obtain n iv lv il it lt lr ir now where
    m: "merge_latest od n iv = Inr (lv, il)" and
    s1: "pkg_version_date s1 = dict_update (pkg_version_date s) n
               \<lparr>installed_version = iv, installed_version_time = it, latest_version = lv,
                current_time = now, latest_version_time = lt, is_latest = il\<rparr>"
    by (rule list_body_Inr) simp
  let ?new = "\<lparr>installed_version = iv, installed_version_time = it, latest_version = lv,
                current_time = now, latest_version_time = lt, is_latest = il\<rparr>"
  note ml = merge_latest_Inr [OF m]
  show ?thesis
  proof (intro ballI, clarify)
    fix k info
    assume "(k, info) \<in> set (pkg_version_date s1)"
    then consider (old) "(k, info) \<in> set (pkg_version_date s)"
      | (new) "info = ?new" "k = n"
      | (upd) "info = ?new" "k \<in> fst ` set (pkg_version_date s)" "py_eq k n"
      unfolding s1 by (blast dest: set_dict_update)
    then show "py_hashable k \<and>
                  is_latest info = py_eq (latest_version info) (installed_version info) \<and>
                  (dict_lookup od k = None \<longrightarrow>
                     latest_version info = installed_version info \<and> is_latest info) \<and>
                  (\<forall>v. dict_lookup od k = Some v \<longrightarrow> latest_version info = v)"
    proof cases
      case old
      with inv show ?thesis by blast
    next
      case new
      with ml show ?thesis by (auto simp: py_eq_refl)
    next
      case upd
      from upd(2) inv have hk: "py_hashable k" by auto
      have "dict_lookup od k = dict_lookup od n"
        using hk ml(1) upd(3) by (rule dict_lookup_cong)
      with upd(1) hk ml show ?thesis by (auto simp: py_eq_refl)
    qed
  qed
qed

text \<open>
  C5. In every report \<^verbatim>\<open>_list\<close> returns, each snapshot has \<^verbatim>\<open>is_latest\<close> true exactly
  when its \<^verbatim>\<open>latest_version\<close> equals its \<^verbatim>\<open>installed_version\<close> (Python's \<^verbatim>\<open>==\<close>). A package
  whose name is not a key of \<^verbatim>\<open>outdated_pkgs\<close> has \<^verbatim>\<open>latest_version\<close> equal to its
  \<^verbatim>\<open>installed_version\<close> and \<^verbatim>\<open>is_latest\<close> true; a package whose name is a key has the
  version stored there as \<^verbatim>\<open>latest_version\<close>, and so is still reported as latest when
  that version equals the installed one.
\<close>

theorem is_latest_by_value_equality:
  assumes "fst (list' e self w) = Inr report"
      and "loads_output e (fst (snd (subprocess_run e
             (build_command' self [''list'', ''-o'', ''--format=json''])))) = Inr pip_list_latest_result"
      and "py_iter pip_list_latest_result = Inr latest_items"
      and "outdated_loop latest_items [] = Inr outdated_pkgs"
      and "(k, info) \<in> set report"
  shows "is_latest info = py_eq (latest_version info) (installed_version info)
       \<and> (dict_lookup outdated_pkgs k = None \<longrightarrow>
            latest_version info = installed_version info \<and> is_latest info)
       \<and> (\<forall>v. dict_lookup outdated_pkgs k = Some v \<longrightarrow> latest_version info = v)"
proof -
  from assms(1) obtain a b u where
    b: "loads_output e (fst (snd (subprocess_run e
             (build_command' self [''list'', ''-o'', ''--format=json''])))) = Inr b" and
    loops: "fst (list_loops e a b u) = Inr report"
    by (rule list'_Inr)
  from b assms(2) have b_eq: "b = pip_list_latest_result" by simp
  from loops obtain items st u' where
    loop: "list_loop e outdated_pkgs items
       \<lparr>pkg_version_date = [], latest_release = None, installed_release = None\<rparr> u = (Inr st, u')"
    and rep: "report = pkg_version_date st"
    using assms(3,4) unfolding b_eq by (auto elim!: list_loops_Inr)
  let ?I = "\<lambda>s. \<forall>(k, info) \<in> set (pkg_version_date s). py_hashable k \<and>
                  is_latest info = py_eq (latest_version info) (installed_version info) \<and>
                  (dict_lookup outdated_pkgs k = None \<longrightarrow>
                     latest_version info = installed_version info \<and> is_latest info) \<and>
                  (\<forall>v. dict_lookup outdated_pkgs k = Some v \<longrightarrow> latest_version info = v)"
  have "?I st"
  proof (rule list_loop_invariant [OF loop, where I = ?I])
    show "?I \<lparr>pkg_version_date = [], latest_release = None, installed_release = None\<rparr>"
      by simp
  next
    fix pkg s v s1 v1
    assume "?I s" "list_body e outdated_pkgs pkg s v = (Inr s1, v1)"
    then show "?I s1" using list_body_snapshot [of e outdated_pkgs pkg s v s1 v1] by blast
  qed
  with assms(5) rep show ?thesis by blast
qed

theorem is_latest_by_value_equality_witness:
  "fst (list' env_same self_ready w_init) = Inr [(JStr ''six'', same_info)]
   \<and> dict_lookup [(JStr ''six'', JStr ''1.10.0'')] (JStr ''six'') = Some (JStr ''1.10.0'')
   \<and> is_latest same_info
   \<and> py_eq (latest_version same_info) (installed_version same_info)
   \<and> latest_version same_info = JStr ''1.10.0''
   \<and> fst (list' env_not_found self_ready w_init) = Inr two_report
   \<and> dict_lookup ([] :: (json \<times> json) list) (JStr ''pytz'') = None
   \<and> latest_version (bare_info ''2018.4'') = installed_version (bare_info ''2018.4'')
   \<and> is_latest (bare_info ''2018.4'')"
proof -
  have h1: "fst (list' env_same self_ready w_init) = Inr [(JStr ''six'', same_info)]"
    by (simp add: step_defs env_same_def demo_defs)
  have h2: "loads_output env_same (fst (snd (subprocess_run env_same
              (build_command' self_ready [''list'', ''-o'', ''--format=json'']))))
            = Inr (JArr [JObj [(''name'', JStr ''six''), (''version'', JStr ''1.10.0''),
                               (''latest_version'', JStr ''1.10.0'')]])"
    by (simp add: env_same_def build_command'_def loads_output_def decode_text_def demo_defs)
  have h3: "py_iter (JArr [JObj [(''name'', JStr ''six''), (''version'', JStr ''1.10.0''),
                               (''latest_version'', JStr ''1.10.0'')]])
            = Inr [JObj [(''name'', JStr ''six''), (''version'', JStr ''1.10.0''),
                         (''latest_version'', JStr ''1.10.0'')]]"
    by simp
  have h4: "outdated_loop [JObj [(''name'', JStr ''six''), (''version'', JStr ''1.10.0''),
                                (''latest_version'', JStr ''1.10.0'')]] []
            = Inr [(JStr ''six'', JStr ''1.10.0'')]"
    by (simp add: dict_setitem_def)
  have h5: "(JStr ''six'', same_info) \<in> set [(JStr ''six'', same_info)]"
    by simp
  have h6: "dict_lookup [(JStr ''six'', JStr ''1.10.0'')] (JStr ''six'') = Some (JStr ''1.10.0'')"
    by simp
  have g1: "fst (list' env_not_found self_ready w_init) = Inr two_report"
    by (simp add: step_defs env_not_found_def demo_defs)
  have g2: "loads_output env_not_found (fst (snd (subprocess_run env_not_found
              (build_command' self_ready [''list'', ''-o'', ''--format=json'']))))
            = Inr (JArr [])"
    by (simp add: env_not_found_def build_command'_def loads_output_def decode_text_def demo_defs)
  have g3: "py_iter (JArr []) = Inr []"
    by simp
  have g4: "outdated_loop [] [] = Inr []"
    by simp
  have g5: "(JStr ''pytz'', bare_info ''2018.4'') \<in> set two_report"
    by (simp add: two_report_def)
  have g6: "dict_lookup ([] :: (json \<times> json) list) (JStr ''pytz'') = None"
    by simp
  have present: "is_latest same_info
     \<and> py_eq (latest_version same_info) (installed_version same_info)
     \<and> latest_version same_info = JStr ''1.10.0''"
    using h6 is_latest_by_value_equality [OF h1 h2 h3 h4 h5]
    by (simp add: same_info_def)
  have absent: "latest_version (bare_info ''2018.4'') = installed_version (bare_info ''2018.4'')
     \<and> is_latest (bare_info ''2018.4'')"
    using g6 is_latest_by_value_equality [OF g1 g2 g3 g4 g5]
    by blast
  from h1 h6 present g1 g6 absent show ?thesis by blast
qed

lemma dict_keys_ok_update:
  assumes "dict_keys_ok (map fst d)" and "py_hashable n"
  shows "dict_keys_ok (map fst (dict_update d n v))"
proof (cases "dict_lookup d n = None")
  case False
  with assms show ?thesis by (auto simp: keys_dict_update)
next
  case True
  then have new: "\<forall>k \<in> fst ` set d. \<not> py_eq k n"
    by (simp add: dict_lookup_None_iff)
  have new': "\<forall>k \<in> fst ` set d. \<not> py_eq n k"
    using new py_eq_sym_hashable [OF assms(2)] by simp
  have "n \<notin> fst ` set d" using new py_eq_refl by blast
  with True assms new new' show ?thesis
    by (auto simp: keys_dict_update dict_keys_ok_def)
qed

lemma covered_dict_update:
  "\<exists>k \<in> set (map fst (dict_update d n v)). py_eq k n"
  by (cases "dict_lookup d n = None")
     (auto simp: keys_dict_update dict_lookup_None_iff py_eq_refl)

lemma list_body_keys:
  assumes "list_body e od pkg s u = (Inr s1, u1)"
  obtains n v where
    "py_get pkg (JStr ''name'') = Inr n" "py_hashable n"
    "pkg_version_date s1 = dict_update (pkg_version_date s) n v"
proof -
  from assms obtain n iv lv il it lt now where
    "py_get pkg (JStr ''name'') = Inr n" and
    m: "merge_latest od n iv = Inr (lv, il)" and
    "pkg_version_date s1 = dict_update (pkg_version_date s) n
               \<lparr>installed_version = iv, installed_version_time = it, latest_version = lv,
                current_time = now, latest_version_time = lt, is_latest = il\<rparr>"
    by (rule list_body_Inr) simp
  with merge_latest_Inr(1) [OF m] that show thesis by blast
qed

lemma list_loop_keys:
  assumes "list_loop e od pkgs st w = (Inr st', w')"
      and "dict_keys_ok (map fst (pkg_version_date st))"
  shows "dict_keys_ok (map fst (pkg_version_date st'))
       \<and> set (map fst (pkg_version_date st)) \<subseteq> set (map fst (pkg_version_date st'))
       \<and> (\<forall>pkg \<in> set pkgs. \<exists>n. py_get pkg (JStr ''name'') = Inr n \<and>
             (\<exists>k \<in> set (map fst (pkg_version_date st')). py_eq k n))
       \<and> (\<forall>k \<in> set (map fst (pkg_version_date st')).
             k \<in> set (map fst (pkg_version_date st)) \<or>
             (\<exists>pkg \<in> set pkgs. py_get pkg (JStr ''name'') = Inr k))"
  using assms
proof (induction pkgs arbitrary: st w)
  case Nil
  then show ?case by simp
next
  case (Cons pkg rest)
  from Cons.prems(1) obtain s1 u1 where
    b: "list_body e od pkg st w = (Inr s1, u1)" and
    l: "list_loop e od rest s1 u1 = (Inr st', w')"
    by (auto split: prod.splits sum.splits)
  from b obtain n v where
    n: "py_get pkg (JStr ''name'') = Inr n" and hn: "py_hashable n" and
    s1: "pkg_version_date s1 = dict_update (pkg_version_date st) n v"
    by (rule list_body_keys)
  have ok1: "dict_keys_ok (map fst (pkg_version_date s1))"
    unfolding s1 using Cons.prems(2) hn by (rule dict_keys_ok_update)
  note ih = Cons.IH [OF l ok1]
  have sub1: "set (map fst (pkg_version_date st)) \<subseteq> set (map fst (pkg_version_date s1))"
    unfolding s1 by (auto simp: keys_dict_update)
  have cov1: "\<exists>k \<in> set (map fst (pkg_version_date s1)). py_eq k n"
    unfolding s1 by (rule covered_dict_update)
  have from1: "\<forall>k \<in> set (map fst (pkg_version_date s1)).
                 k \<in> set (map fst (pkg_version_date st)) \<or> k = n"
    unfolding s1 by (auto simp: keys_dict_update split: if_splits)
  have c1: "dict_keys_ok (map fst (pkg_version_date st'))" using ih by blast
  have c2: "set (map fst (pkg_version_date st)) \<subseteq> set (map fst (pkg_version_date st'))"
    using ih sub1 by blast
  have c3: "\<forall>p \<in> set (pkg # rest). \<exists>m. py_get p (JStr ''name'') = Inr m \<and>
             (\<exists>k \<in> set (map fst (pkg_version_date st')). py_eq k m)"
  proof
    fix p assume "p \<in> set (pkg # rest)"
    then consider "p = pkg" | "p \<in> set rest" by auto
    then show "\<exists>m. py_get p (JStr ''name'') = Inr m \<and>
             (\<exists>k \<in> set (map fst (pkg_version_date st')). py_eq k m)"
    proof cases
      case 1
      from cov1 ih have "\<exists>k \<in> set (map fst (pkg_version_date st')). py_eq k n" by blast
      with 1 n show ?thesis by blast
    next
      case 2
      with ih show ?thesis by blast
    qed
  qed
  have c4: "\<forall>k \<in> set (map fst (pkg_version_date st')).
             k \<in> set (map fst (pkg_version_date st)) \<or>
             (\<exists>p \<in> set (pkg # rest). py_get p (JStr ''name'') = Inr k)"
  proof
    fix k assume "k \<in> set (map fst (pkg_version_date st'))"
    with ih have "k \<in> set (map fst (pkg_version_date s1)) \<or>
                  (\<exists>p \<in> set rest. py_get p (JStr ''name'') = Inr k)" by blast
    with from1 n show "k \<in> set (map fst (pkg_version_date st)) \<or>
             (\<exists>p \<in> set (pkg # rest). py_get p (JStr ''name'') = Inr k)" by auto
  qed
  from c1 c2 c3 c4 show ?case by blast
qed

lemma py_eq_no_bool:
  "py_hashable a \<Longrightarrow> \<forall>p. a \<noteq> JBool p \<Longrightarrow> \<forall>p. b \<noteq> JBool p \<Longrightarrow> py_eq a b = (a = b)"
  by (cases a; cases b; simp) auto

text \<open>
  C9. In every report \<^verbatim>\<open>_list\<close> returns, every key is the name of a package of the
  parsed output of \<^verbatim>\<open>pip list\<close> (so a name that occurs only in the output of
  \<^verbatim>\<open>pip list -o\<close> is not a key), every such package has a key equal to its name, and no
  two keys are equal: each installed package has exactly one entry. Equality is Python's
  \<^verbatim>\<open>==\<close>; when no name is a JSON boolean it is plain equality, and the set of keys is the
  set of names. Every entry is a \<open>pkg_info\<close>, which has all six fields.
\<close>

theorem report_keys_are_installed_names:
  assumes "fst (list' e self w) = Inr report"
      and "loads_output e (fst (snd (subprocess_run e
             (build_command' self [''list'', ''--format=json''])))) = Inr pip_list_result"
      and "py_iter pip_list_result = Inr pkgs"
  shows "(\<forall>k \<in> fst ` set report. \<exists>pkg \<in> set pkgs. py_get pkg (JStr ''name'') = Inr k)
       \<and> (\<forall>pkg \<in> set pkgs. \<exists>n. py_get pkg (JStr ''name'') = Inr n \<and>
             (\<exists>k \<in> fst ` set report. py_eq k n))
       \<and> distinct (map fst report)
       \<and> (\<forall>k \<in> fst ` set report. \<forall>k' \<in> fst ` set report. py_eq k k' \<longrightarrow> k = k')
       \<and> ((\<forall>pkg \<in> set pkgs. \<forall>p. py_get pkg (JStr ''name'') \<noteq> Inr (JBool p)) \<longrightarrow>
            Inr ` fst ` set report = (\<lambda>pkg. py_get pkg (JStr ''name'')) ` set pkgs)"
proof -
  from assms(1) obtain a b u where
    a: "loads_output e (fst (snd (subprocess_run e
             (build_command' self [''list'', ''--format=json''])))) = Inr a" and
    loops: "fst (list_loops e a b u) = Inr report"
    by (rule list'_Inr)
  from a assms(2) have a_eq: "a = pip_list_result" by simp
  from loops obtain od st u' where
    loop: "list_loop e od pkgs
       \<lparr>pkg_version_date = [], latest_release = None, installed_release = None\<rparr> u = (Inr st, u')"
    and rep: "report = pkg_version_date st"
    using assms(3) unfolding a_eq by (auto elim!: list_loops_Inr)
  have "dict_keys_ok (map fst (pkg_version_date
          \<lparr>pkg_version_date = [], latest_release = None, installed_release = None\<rparr>))"
    by (simp add: dict_keys_ok_def)
  from list_loop_keys [OF loop this]
  have ok: "dict_keys_ok (map fst report)"
    and cov: "\<forall>pkg \<in> set pkgs. \<exists>n. py_get pkg (JStr ''name'') = Inr n \<and>
             (\<exists>k \<in> fst ` set report. py_eq k n)"
    and src: "\<forall>k \<in> fst ` set report. \<exists>pkg \<in> set pkgs. py_get pkg (JStr ''name'') = Inr k"
    unfolding rep by simp_all
  have eq: "Inr ` fst ` set report = (\<lambda>pkg. py_get pkg (JStr ''name'')) ` set pkgs"
    if nb: "\<forall>pkg \<in> set pkgs. \<forall>p. py_get pkg (JStr ''name'') \<noteq> Inr (JBool p)"
  proof (intro set_eqI iffI)
    fix x :: "exn + json" assume "x \<in> Inr ` fst ` set report"
    with src show "x \<in> (\<lambda>pkg. py_get pkg (JStr ''name'')) ` set pkgs" by force
  next
    fix x :: "exn + json" assume "x \<in> (\<lambda>pkg. py_get pkg (JStr ''name'')) ` set pkgs"
    then obtain pkg where pkg: "pkg \<in> set pkgs" "x = py_get pkg (JStr ''name'')" by blast
    with cov obtain n k where n: "x = Inr n" and k: "k \<in> fst ` set report" "py_eq k n"
      by force
    from k(1) src obtain q where q: "q \<in> set pkgs" "py_get q (JStr ''name'') = Inr k" by blast
    have "\<forall>p. k \<noteq> JBool p" using nb q by metis
    moreover have "\<forall>p. n \<noteq> JBool p" using nb pkg n by metis
    moreover have "py_hashable k" using ok k(1) by (auto simp: dict_keys_ok_def)
    ultimately have "k = n" using k(2) py_eq_no_bool by blast
    with k(1) n show "x \<in> Inr ` fst ` set report" by blast
  qed
  from ok src cov eq show ?thesis by (auto simp: dict_keys_ok_def)
qed

theorem report_keys_are_installed_names_witness:
  "fst (list' env_not_found self_ready w_init) = Inr two_report
   \<and> fst ` set two_report = {JStr ''six'', JStr ''pytz''}
   \<and> distinct (map fst two_report)
   \<and> (Inr ` fst ` set two_report :: (exn + json) set) =
       (\<lambda>pkg. py_get pkg (JStr ''name'')) `
         set [JObj [(''name'', JStr ''six''), (''version'', JStr ''1.10.0'')],
              JObj [(''name'', JStr ''pytz''), (''version'', JStr ''2018.4'')]]"
proof -
  have h1: "fst (list' env_not_found self_ready w_init) = Inr two_report"
    by (simp add: step_defs env_not_found_def demo_defs)
  have h2: "loads_output env_not_found (fst (snd (subprocess_run env_not_found
              (build_command' self_ready [''list'', ''--format=json'']))))
            = Inr (JArr [JObj [(''name'', JStr ''six''), (''version'', JStr ''1.10.0'')],
                          JObj [(''name'', JStr ''pytz''), (''version'', JStr ''2018.4'')]])"
    by (simp add: env_not_found_def build_command'_def loads_output_def decode_text_def demo_defs)
  have h3: "py_iter (JArr [JObj [(''name'', JStr ''six''), (''version'', JStr ''1.10.0'')],
                          JObj [(''name'', JStr ''pytz''), (''version'', JStr ''2018.4'')]])
            = Inr [JObj [(''name'', JStr ''six''), (''version'', JStr ''1.10.0'')],
                   JObj [(''name'', JStr ''pytz''), (''version'', JStr ''2018.4'')]]"
    by simp
  have h4: "\<forall>pkg \<in> set [JObj [(''name'', JStr ''six''), (''version'', JStr ''1.10.0'')],
                           JObj [(''name'', JStr ''pytz''), (''version'', JStr ''2018.4'')]].
              \<forall>p. py_get pkg (JStr ''name'') \<noteq> Inr (JBool p)"
    by simp
  have h5: "fst ` set two_report = {JStr ''six'', JStr ''pytz''}"
    by (simp add: two_report_def)
  show ?thesis
    using h1 h4 h5 report_keys_are_installed_names [OF h1 h2 h3]
    by blast
qed

subsection \<open>Two runs of the enrichment\<close>

lemma without_time_dict_update:
  "without_time d1 = without_time d2 \<Longrightarrow> i1\<lparr>current_time := []\<rparr> = i2\<lparr>current_time := []\<rparr> \<Longrightarrow>
   without_time (dict_update d1 k i1) = without_time (dict_update d2 k i2)"
proof (induction d1 arbitrary: d2)
  case Nil
  then show ?case by (simp add: without_time_def)
next
  case (Cons a d1)
  from Cons.prems(1) obtain b d2' where d2: "d2 = b # d2'"
    by (cases d2) (auto simp: without_time_def)
  with Cons.prems(1) have fst_eq: "fst a = fst b" and
    snd_eq: "(snd a)\<lparr>current_time := []\<rparr> = (snd b)\<lparr>current_time := []\<rparr>" and
    rest: "without_time d1 = without_time d2'"
    by (auto simp: without_time_def split: prod.splits)
  from Cons.IH [OF rest Cons.prems(2)] fst_eq snd_eq Cons.prems(2) rest d2 show ?case
    by (cases a; cases b) (auto simp: without_time_def)
qed

lemma call_pypi_json_api'_agree:
  assumes "urlopen e2 = urlopen e1" "json_loads e2 = json_loads e1"
      and "length (requests w2) = length (requests w1)"
  shows "fst (call_pypi_json_api' e2 n v w2) = fst (call_pypi_json_api' e1 n v w1)"
  using assms
  by (simp add: call_pypi_json_api'_def Let_def split: http_outcome.splits option.splits)

lemma list_body_agree:
  assumes env: "urlopen e2 = urlopen e1" "json_loads e2 = json_loads e1"
      and w: "length (requests w2) = length (requests w1)"
      and st: "without_time (pkg_version_date s2) = without_time (pkg_version_date s1)"
              "latest_release s2 = latest_release s1" "installed_release s2 = installed_release s1"
  shows "(case (fst (list_body e1 od pkg s1 w1), fst (list_body e2 od pkg s2 w2)) of
            (Inl x1, Inl x2) \<Rightarrow> x1 = x2
          | (Inr t1, Inr t2) \<Rightarrow>
              without_time (pkg_version_date t2) = without_time (pkg_version_date t1)
              \<and> latest_release t2 = latest_release t1
              \<and> installed_release t2 = installed_release t1
          | _ \<Rightarrow> False)
       \<and> length (requests (snd (list_body e2 od pkg s2 w2)))
           = length (requests (snd (list_body e1 od pkg s1 w1)))"
proof -
  have c: "fst (call_pypi_json_api' e2 n v w2) = fst (call_pypi_json_api' e1 n v w1)" for n v
    using env w by (rule call_pypi_json_api'_agree)
  have sw: "snd (call_pypi_json_api' e n v u) = u\<lparr>requests := requests u @ [(n, v)]\<rparr>" for e n v u
    by (rule snd_call_pypi_json_api')
  show ?thesis
  proof (cases "py_get pkg (JStr ''name'')")
    case (Inl x)
    then show ?thesis using w by (simp add: list_body_def)
  next
    case n: (Inr n)
    show ?thesis
    proof (cases "py_get pkg (JStr ''version'')")
      case (Inl x)
      then show ?thesis using n w by (simp add: list_body_def)
    next
      case iv: (Inr iv)
      show ?thesis
      proof (cases "merge_latest od n iv")
        case (Inl x)
        then show ?thesis using n iv w by (simp add: list_body_def)
      next
        case (Inr p)
        obtain lv il where p: "p = (lv, il)" by (cases p)
        obtain r1 u1 where c1: "call_pypi_json_api' e1 n lv w1 = (r1, u1)"
          by (cases "call_pypi_json_api' e1 n lv w1")
        obtain r2 u2 where c2: "call_pypi_json_api' e2 n lv w2 = (r2, u2)"
          by (cases "call_pypi_json_api' e2 n lv w2")
        have r: "r2 = r1" using c [of n lv] c1 c2 by simp
        have u: "u1 = w1\<lparr>requests := requests w1 @ [(n, lv)]\<rparr>"
                "u2 = w2\<lparr>requests := requests w2 @ [(n, lv)]\<rparr>"
          using sw [of e1 n lv w1] sw [of e2 n lv w2] c1 c2 by simp_all
        show ?thesis
        proof (cases r1)
          case (Inl x)
          then show ?thesis using n iv Inr p c1 c2 r u w by (simp add: list_body_def)
        next
          case res: (Inr result)
          show ?thesis
          proof (cases "release_times result lv iv (latest_release s1) (installed_release s1)")
            case (Inl x)
            then show ?thesis using n iv Inr p c1 c2 r u w res st
              by (simp add: list_body_def)
          next
            case rt: (Inr q)
            obtain it lt lr ir where q: "q = ((it, lt), (lr, ir))"
              by (cases q) (auto split: prod.splits)
            show ?thesis using n iv Inr p c1 c2 r u w res st rt q
              by (simp add: list_body_def datetime_now_def without_time_dict_update)
          qed
        qed
      qed
    qed
  qed
qed

lemma list_loop_agree:
  assumes "urlopen e2 = urlopen e1" "json_loads e2 = json_loads e1"
      and "length (requests w2) = length (requests w1)"
      and "without_time (pkg_version_date s2) = without_time (pkg_version_date s1)"
      and "latest_release s2 = latest_release s1" "installed_release s2 = installed_release s1"
  shows "map_sum id (\<lambda>s. without_time (pkg_version_date s)) (fst (list_loop e2 od pkgs s2 w2))
       = map_sum id (\<lambda>s. without_time (pkg_version_date s)) (fst (list_loop e1 od pkgs s1 w1))"
  using assms(3-)
proof (induction pkgs arbitrary: s1 s2 w1 w2)
  case Nil
  then show ?case by simp
next
  case (Cons pkg rest)
  obtain r1 u1 where b1: "list_body e1 od pkg s1 w1 = (r1, u1)"
    by (cases "list_body e1 od pkg s1 w1")
  obtain r2 u2 where b2: "list_body e2 od pkg s2 w2 = (r2, u2)"
    by (cases "list_body e2 od pkg s2 w2")
  note ag = list_body_agree [OF assms(1,2) Cons.prems, of od pkg]
  show ?case
  proof (cases r1)
    case (Inl x1)
    with ag b1 b2 show ?thesis by (cases r2) auto
  next
    case (Inr t1)
    with ag b1 b2 obtain t2 where r2: "r2 = Inr t2" by (cases r2) auto
    from ag b1 b2 Inr r2 have
      "length (requests u2) = length (requests u1)"
      "without_time (pkg_version_date t2) = without_time (pkg_version_date t1)"
      "latest_release t2 = latest_release t1" "installed_release t2 = installed_release t1"
      by simp_all
    from Cons.IH [OF this] b1 b2 Inr r2 show ?thesis by simp
  qed
qed

lemma list_loops_agree:
  assumes "urlopen e2 = urlopen e1" "json_loads e2 = json_loads e1"
      and "length (requests w2) = length (requests w1)"
  shows "map_sum id without_time (fst (list_loops e2 a b w2))
       = map_sum id without_time (fst (list_loops e1 a b w1))"
proof -
  let ?init = "\<lparr>pkg_version_date = [], latest_release = None, installed_release = None\<rparr>"
  have "map_sum id (\<lambda>s. without_time (pkg_version_date s)) (fst (list_loop e2 od pkgs ?init w2))
      = map_sum id (\<lambda>s. without_time (pkg_version_date s)) (fst (list_loop e1 od pkgs ?init w1))"
    for od pkgs
    using assms by (intro list_loop_agree) simp_all
  note loop = this
  show ?thesis
  proof (cases "py_iter b")
    case (Inl x)
    then show ?thesis by (simp add: list_loops_def)
  next
    case li: (Inr latest_items)
    show ?thesis
    proof (cases "outdated_loop latest_items []")
      case (Inl x)
      then show ?thesis using li by (simp add: list_loops_def)
    next
      case od: (Inr od)
      show ?thesis
      proof (cases "py_iter a")
        case (Inl x)
        then show ?thesis using li od by (simp add: list_loops_def)
      next
        case (Inr pkgs)
        obtain r1 u1 where l1: "list_loop e1 od pkgs ?init w1 = (r1, u1)"
          by (cases "list_loop e1 od pkgs ?init w1")
        obtain r2 u2 where l2: "list_loop e2 od pkgs ?init w2 = (r2, u2)"
          by (cases "list_loop e2 od pkgs ?init w2")
        from loop [of od pkgs] l1 l2
        have "map_sum id (\<lambda>s. without_time (pkg_version_date s)) r2
            = map_sum id (\<lambda>s. without_time (pkg_version_date s)) r1"
          by simp
        then show ?thesis using li od Inr l1 l2
          by (cases r1; cases r2) (simp_all add: list_loops_def)
      qed
    qed
  qed
qed

text \<open>
  C8. Take two runs of \<^verbatim>\<open>_list\<close> in which the output of \<^verbatim>\<open>pip list\<close> is read and parsed
  to the same list, the output of \<^verbatim>\<open>pip list -o\<close> is read and parsed to the same list, and
  the registry answers alike from the same request number on;
  the clocks, the scratch directories and the files may differ. Then either both runs
  raise the same exception, or both return a report, and the two reports are the same
  once \<^verbatim>\<open>current_time\<close> is blanked in every snapshot: same keys in the same order and
  the same five other fields.
\<close>

theorem enrichment_deterministic_up_to_current_time:
  assumes "loads_output e2 (fst (snd (subprocess_run e2 (build_command' self2 [''list'', ''--format=json''])))) 
           = loads_output e1 (fst (snd (subprocess_run e1 (build_command' self1 [''list'', ''--format=json'']))))"
      and "loads_output e2 (fst (snd (subprocess_run e2 (build_command' self2 [''list'', ''-o'', ''--format=json'']))))
           = loads_output e1 (fst (snd (subprocess_run e1 (build_command' self1 [''list'', ''-o'', ''--format=json'']))))"
      and "urlopen e2 = urlopen e1"
      and "length (requests w2) = length (requests w1)"
      and "json_loads e2 = json_loads e1"
      and "output_directory' self1 = Some d1"
      and "output_directory' self2 = Some d2"
  shows "map_sum id without_time (fst (list' e2 self2 w2))
       = map_sum id without_time (fst (list' e1 self1 w1))"
proof -
  have p: "os_path_join d ''list-out.txt'' \<noteq> os_path_join d ''list-error.txt''"
          "os_path_join d ''list-outdate-out.txt'' \<noteq> os_path_join d ''list-outdate-error.txt''"
    for d
    by (simp_all add: os_path_join_eq_iff)
  let ?q1 = "\<lambda>e self d w. list_query e self [''list'', ''--format=json'']
               (os_path_join d ''list-out.txt'') (os_path_join d ''list-error.txt'') w"
  let ?q2 = "\<lambda>e self d w. list_query e self [''list'', ''-o'', ''--format=json'']
               (os_path_join d ''list-outdate-out.txt'')
               (os_path_join d ''list-outdate-error.txt'') w"
  let ?u1 = "snd (?q2 e1 self1 d1 (snd (?q1 e1 self1 d1 w1)))"
  let ?u2 = "snd (?q2 e2 self2 d2 (snd (?q1 e2 self2 d2 w2)))"
  have len: "length (requests ?u2) = length (requests ?u1)"
    using assms(4) list_query_world [OF p(1)] list_query_world [OF p(2)] by simp
  have loops: "map_sum id without_time (fst (list_loops e2 a b ?u2))
             = map_sum id without_time (fst (list_loops e1 a b ?u1))" for a b
    using assms(3,5) len by (rule list_loops_agree)
  have l1: "fst (list' e1 self1 w1) =
     (case loads_output e1 (fst (snd (subprocess_run e1 (build_command' self1 [''list'', ''--format=json'']))))  of
        Inl x \<Rightarrow> Inl x
      | Inr a \<Rightarrow>
          (case loads_output e1 (fst (snd (subprocess_run e1 (build_command' self1 [''list'', ''-o'', ''--format=json''])))) of
             Inl x \<Rightarrow> Inl x
           | Inr b \<Rightarrow> fst (list_loops e1 a b ?u1)))"
    using assms(6) by (simp add: list'_def list_query_eq [OF p(1)] list_query_eq [OF p(2)] split: sum.splits)
  have l2: "fst (list' e2 self2 w2) =
     (case loads_output e2 (fst (snd (subprocess_run e2 (build_command' self2 [''list'', ''--format=json'']))))  of
        Inl x \<Rightarrow> Inl x
      | Inr a \<Rightarrow>
          (case loads_output e2 (fst (snd (subprocess_run e2 (build_command' self2 [''list'', ''-o'', ''--format=json''])))) of
             Inl x \<Rightarrow> Inl x
           | Inr b \<Rightarrow> fst (list_loops e2 a b ?u2)))"
    using assms(7) by (simp add: list'_def list_query_eq [OF p(1)] list_query_eq [OF p(2)] split: sum.splits)
  show ?thesis
    unfolding l1 l2 assms(1,2)
    by (simp add: loops split: sum.splits)
qed

theorem enrichment_deterministic_up_to_current_time_witness:
  "fst (list' env_ok self_ready w_init) = Inr six_report
   \<and> fst (list' env_ok_later self_ready w_init) = Inr later_report
   \<and> six_report \<noteq> later_report
   \<and> without_time later_report = without_time six_report"
proof -
  have h1: "loads_output env_ok_later (fst (snd (subprocess_run env_ok_later (build_command' self_ready [''list'', ''--format=json'']))))
           = loads_output env_ok (fst (snd (subprocess_run env_ok (build_command' self_ready [''list'', ''--format=json'']))))"
    by (simp add: env_ok_def env_ok_later_def demo_env_def loads_output_def decode_text_def)
  have h2: "loads_output env_ok_later (fst (snd (subprocess_run env_ok_later (build_command' self_ready [''list'', ''-o'', ''--format=json'']))))
           = loads_output env_ok (fst (snd (subprocess_run env_ok (build_command' self_ready [''list'', ''-o'', ''--format=json'']))))"
    by (simp add: env_ok_def env_ok_later_def demo_env_def loads_output_def decode_text_def)
  have h3: "urlopen env_ok_later = urlopen env_ok"
    by (simp add: env_ok_def env_ok_later_def demo_env_def)
  have h4: "length (requests w_init) = length (requests w_init)"
    by simp
  have h5: "json_loads env_ok_later = json_loads env_ok"
    by (simp add: env_ok_def env_ok_later_def demo_env_def)
  have h6: "output_directory' self_ready = Some ''/tmp/tmpab12cd''"
    by (simp add: self_ready_def)
  have r1: "fst (list' env_ok self_ready w_init) = Inr six_report"
    by (simp add: step_defs env_ok_def demo_defs)
  have r2: "fst (list' env_ok_later self_ready w_init) = Inr later_report"
    by (simp add: step_defs env_ok_later_def demo_defs)
  have r3: "six_report \<noteq> later_report"
    by (simp add: six_report_def later_report_def)
  show ?thesis
    using r1 r2 r3 enrichment_deterministic_up_to_current_time [OF h1 h2 h3 h4 h5 h6 h6]
    by simp
qed

subsection \<open>Registry failures\<close>

lemma call_pypi_json_api'_raises:
  "(fst (call_pypi_json_api' e n v w) = Inl x)
     = (request_raises e (urlopen e (length (requests w)) n v) = Some x)"
  by (auto simp: call_pypi_json_api'_def request_raises_def Let_def
           split: http_outcome.splits option.splits)

lemma list_body_requests:
  assumes "list_body e od pkg st w = (r, w')"
  shows "requests w' = requests w
       \<or> (\<exists>n v. requests w' = requests w @ [(n, v)] \<and>
            (case request_raises e (urlopen e (length (requests w)) n v) of
               Some x \<Rightarrow> r = Inl x
             | None \<Rightarrow> True))"
proof (cases "py_get pkg (JStr ''name'')")
  case (Inl x)
  then show ?thesis using assms by (auto simp: list_body_def)
next
  case n: (Inr n)
  show ?thesis
  proof (cases "py_get pkg (JStr ''version'')")
    case (Inl x)
    then show ?thesis using n assms by (auto simp: list_body_def)
  next
    case iv: (Inr iv)
    show ?thesis
    proof (cases "merge_latest od n iv")
      case (Inl x)
      then show ?thesis using n iv assms by (auto simp: list_body_def)
    next
      case (Inr p)
      obtain lv il where p: "p = (lv, il)" by (cases p)
      obtain r1 u1 where c1: "call_pypi_json_api' e n lv w = (r1, u1)"
        by (cases "call_pypi_json_api' e n lv w")
      have u1: "u1 = w\<lparr>requests := requests w @ [(n, lv)]\<rparr>"
        using snd_call_pypi_json_api' [of e n lv w] c1 by simp
      have rs: "(r1 = Inl x) = (request_raises e (urlopen e (length (requests w)) n lv) = Some x)" for x
        using call_pypi_json_api'_raises [of e n lv w x] c1 by simp
      have w': "requests w' = requests w @ [(n, lv)]"
        using assms n iv Inr p c1 u1
        by (auto simp: list_body_def datetime_now_def split: sum.splits prod.splits)
      have "r = Inl x" if "request_raises e (urlopen e (length (requests w)) n lv) = Some x" for x
        using that rs [of x] assms n iv Inr p c1 by (auto simp: list_body_def)
      with w' show ?thesis by (auto split: option.splits)
    qed
  qed
qed

lemma list_body_Inr_requests:
  assumes "list_body e od pkg st w = (Inr st', w')"
  shows "\<exists>n v. requests w' = requests w @ [(n, v)] \<and>
           request_raises e (urlopen e (length (requests w)) n v) = None"
proof -
  from assms obtain n lv result where
    c: "fst (call_pypi_json_api' e n lv w) = Inr result" and
    w': "w' = w\<lparr>requests := requests w @ [(n, lv)], clock_reads := Suc (clock_reads w)\<rparr>"
    by (rule list_body_Inr)
  have "request_raises e (urlopen e (length (requests w)) n lv) = None"
  proof (cases "request_raises e (urlopen e (length (requests w)) n lv)")
    case (Some x)
    then have "fst (call_pypi_json_api' e n lv w) = Inl x"
      by (simp add: call_pypi_json_api'_raises)
    with c show ?thesis by simp
  qed simp
  with w' show ?thesis by simp
qed

lemma list_loop_requests:
  assumes "list_loop e od pkgs st w = (r, w')"
  shows "(\<exists>more. requests w' = requests w @ more)
       \<and> (\<forall>i n v x. length (requests w) \<le> i \<longrightarrow> i < length (requests w') \<longrightarrow>
              requests w' ! i = (n, v) \<longrightarrow> request_raises e (urlopen e i n v) = Some x \<longrightarrow>
              r = Inl x)"
  using assms
proof (induction pkgs arbitrary: st w)
  case Nil
  then show ?case by auto
next
  case (Cons pkg rest)
  obtain r1 u1 where b: "list_body e od pkg st w = (r1, u1)"
    by (cases "list_body e od pkg st w")
  show ?case
  proof (cases r1)
    case (Inl x1)
    with Cons.prems b have r: "r = Inl x1" and w': "w' = u1" by simp_all
    from list_body_requests [OF b] show ?thesis
    proof
      assume "requests u1 = requests w"
      with w' show ?thesis by simp
    next
      assume "\<exists>n v. requests u1 = requests w @ [(n, v)] \<and>
            (case request_raises e (urlopen e (length (requests w)) n v) of
               Some x \<Rightarrow> r1 = Inl x
             | None \<Rightarrow> True)"
      then obtain n v where
        u1: "requests u1 = requests w @ [(n, v)]" and
        rs: "case request_raises e (urlopen e (length (requests w)) n v) of
               Some x \<Rightarrow> r1 = Inl x | None \<Rightarrow> True"
        by blast
      have "r = Inl x" if "length (requests w) \<le> i" "i < length (requests w')"
          "requests w' ! i = (m, t)" "request_raises e (urlopen e i m t) = Some x" for i m t x
      proof -
        from that(1,2) w' u1 have i: "i = length (requests w)" by simp
        with that(3) w' u1 have "m = n" "t = v" by simp_all
        with rs that(4) i Inl r show ?thesis by simp
      qed
      with w' u1 show ?thesis by auto
    qed
  next
    case (Inr s1)
    with Cons.prems b have l: "list_loop e od rest s1 u1 = (r, w')" by simp
    from list_body_Inr_requests b Inr obtain n v where
      u1: "requests u1 = requests w @ [(n, v)]" and
      ok: "request_raises e (urlopen e (length (requests w)) n v) = None"
      by blast
    from Cons.IH [OF l] obtain more where
      w': "requests w' = requests u1 @ more" and
      ih: "\<And>i n v x. length (requests u1) \<le> i \<Longrightarrow> i < length (requests w') \<Longrightarrow>
              requests w' ! i = (n, v) \<Longrightarrow> request_raises e (urlopen e i n v) = Some x \<Longrightarrow>
              r = Inl x"
      by blast
    have "r = Inl x" if "length (requests w) \<le> i" "i < length (requests w')"
        "requests w' ! i = (m, t)" "request_raises e (urlopen e i m t) = Some x" for i m t x
    proof (cases "i = length (requests w)")
      case True
      with that(3) w' u1 have "m = n" "t = v" by (simp_all add: nth_append)
      with ok that(4) True show ?thesis by simp
    next
      case False
      with that(1) u1 have "length (requests u1) \<le> i" by simp
      from ih [OF this that(2,3,4)] show ?thesis .
    qed
    with w' u1 show ?thesis by auto
  qed
qed

lemma requests_run_command':
  "run_command' e c p q b w = (r, w') \<Longrightarrow> requests w' = requests w"
  by (auto simp: run_command'_def Let_def split: prod.splits if_splits)

lemma requests_freeze':
  "freeze' e self p w = (r, w') \<Longrightarrow> requests w' = requests w"
  by (auto simp: freeze'_def Let_def split: option.splits prod.splits sum.splits
           dest: requests_run_command')

lemma requests_uninstall':
  "uninstall' e self p w = (r, w') \<Longrightarrow> requests w' = requests w"
  by (auto simp: uninstall'_def Let_def split: option.splits prod.splits sum.splits
           dest: requests_run_command')

lemma requests_clean_block:
  "clean_block e self w = (r, w') \<Longrightarrow> requests w' = requests w"
  by (auto simp: clean_block_def Let_def split: option.splits prod.splits sum.splits if_splits
           dest!: requests_freeze' requests_uninstall')

lemma requests_install':
  "install' e self w = (r, w') \<Longrightarrow> requests w' = requests w"
  by (auto simp: install'_def Let_def split: option.splits prod.splits sum.splits if_splits
           dest: requests_run_command')

lemma requests_check':
  "check' e self w = (r, w') \<Longrightarrow> requests w' = requests w"
  by (auto simp: check'_def Let_def split: option.splits prod.splits sum.splits if_splits
           dest: requests_run_command')

lemma requests_list_query:
  "list_query e self sub p q w = (r, w') \<Longrightarrow> requests w' = requests w"
  by (auto simp: list_query_def split: option.splits prod.splits sum.splits
           dest: requests_run_command')

lemma list_loops_requests:
  assumes "list_loops e a b w = (r, w')"
  shows "\<forall>i n v x. length (requests w) \<le> i \<longrightarrow> i < length (requests w') \<longrightarrow>
              requests w' ! i = (n, v) \<longrightarrow> request_raises e (urlopen e i n v) = Some x \<longrightarrow>
              r = Inl x"
proof (cases "py_iter b")
  case (Inl x)
  then show ?thesis using assms by (auto simp: list_loops_def)
next
  case li: (Inr latest_items)
  show ?thesis
  proof (cases "outdated_loop latest_items []")
    case (Inl x)
    then show ?thesis using li assms by (auto simp: list_loops_def)
  next
    case od: (Inr od)
    show ?thesis
    proof (cases "py_iter a")
      case (Inl x)
      then show ?thesis using li od assms by (auto simp: list_loops_def)
    next
      case (Inr pkgs)
      let ?init = "\<lparr>pkg_version_date = [], latest_release = None, installed_release = None\<rparr>"
      obtain r1 u1 where l: "list_loop e od pkgs ?init w = (r1, u1)"
        by (cases "list_loop e od pkgs ?init w")
      from assms li od Inr l have w': "w' = u1"
        by (auto simp: list_loops_def split: sum.splits)
      from assms li od Inr l have r: "\<And>x. r1 = Inl x \<Longrightarrow> r = Inl x"
        by (auto simp: list_loops_def split: sum.splits)
      from list_loop_requests [OF l] w' r show ?thesis by blast
    qed
  qed
qed

lemma list'_requests:
  assumes "list' e self w = (r, w')"
  shows "\<forall>i n v x. length (requests w) \<le> i \<longrightarrow> i < length (requests w') \<longrightarrow>
              requests w' ! i = (n, v) \<longrightarrow> request_raises e (urlopen e i n v) = Some x \<longrightarrow>
              r = Inl x"
proof (cases "output_directory' self")
  case None
  then show ?thesis using assms by (auto simp: list'_def)
next
  case (Some d)
  obtain r1 w1 where q1: "list_query e self [''list'', ''--format=json'']
             (os_path_join d ''list-out.txt'') (os_path_join d ''list-error.txt'') w = (r1, w1)"
    by (cases "list_query e self [''list'', ''--format=json'']
             (os_path_join d ''list-out.txt'') (os_path_join d ''list-error.txt'') w")
  have w1: "requests w1 = requests w" using q1 by (rule requests_list_query)
  show ?thesis
  proof (cases r1)
    case (Inl x)
    then show ?thesis using assms Some q1 w1 by (auto simp: list'_def)
  next
    case a: (Inr a)
    obtain r2 w2 where q2: "list_query e self [''list'', ''-o'', ''--format=json'']
             (os_path_join d ''list-outdate-out.txt'')
             (os_path_join d ''list-outdate-error.txt'') w1 = (r2, w2)"
      by (cases "list_query e self [''list'', ''-o'', ''--format=json'']
             (os_path_join d ''list-outdate-out.txt'')
             (os_path_join d ''list-outdate-error.txt'') w1")
    have w2: "requests w2 = requests w" using q2 w1 by (simp add: requests_list_query)
    show ?thesis
    proof (cases r2)
      case (Inl x)
      then show ?thesis using assms Some q1 a q2 w2 by (auto simp: list'_def)
    next
      case (Inr b)
      with assms Some q1 a q2 have "list_loops e a b w2 = (r, w')"
        by (simp add: list'_def)
      from list_loops_requests [OF this] w2 show ?thesis by simp
    qed
  qed
qed

lemma run_steps_requests:
  assumes "run_steps e self w = (r, w')"
  shows "\<forall>i n v x. length (requests w) \<le> i \<longrightarrow> i < length (requests w') \<longrightarrow>
              requests w' ! i = (n, v) \<longrightarrow> request_raises e (urlopen e i n v) = Some x \<longrightarrow>
              r = Inl x"
proof -
  obtain r1 w1 where c: "clean_block e self w = (r1, w1)" by (cases "clean_block e self w")
  have w1: "requests w1 = requests w" using c by (rule requests_clean_block)
  show ?thesis
  proof (cases r1)
    case (Inl x)
    then show ?thesis using assms c w1 by (auto simp: run_steps_def)
  next
    case u: (Inr u)
    obtain r2 w2 where i: "install' e self w1 = (r2, w2)" by (cases "install' e self w1")
    have w2: "requests w2 = requests w" using i w1 by (simp add: requests_install')
    show ?thesis
    proof (cases r2)
      case (Inl x)
      then show ?thesis using assms c u i w2 by (auto simp: run_steps_def)
    next
      case res: (Inr install_result)
      show ?thesis
      proof (cases "result_type install_result \<noteq> INSTALL_ERROR")
        case False
        then show ?thesis using assms c u i res w2
          by (auto simp: run_steps_def)
      next
        case True
        obtain r3 w3 where l: "list' e self w2 = (r3, w3)" by (cases "list' e self w2")
        note lr = list'_requests [OF l]
        show ?thesis
        proof (cases r3)
          case (Inl x)
          with assms c u i res True l have "r = Inl x" "w' = w3"
            by (auto simp: run_steps_def)
          with lr Inl w2 show ?thesis by simp
        next
          case (Inr dep)
          have "requests w' = requests w3"
            using assms c u i res True l Inr
            by (auto simp: run_steps_def split: if_splits prod.splits sum.splits
                     dest: requests_check')
          with lr Inr w2 show ?thesis by auto
        qed
      qed
    qed
  qed
qed


lemma check_requests:
  assumes "check e pip_command requested tmp_path clean w = (r, w')"
      and "length (requests w) \<le> i" and "i < length (requests w')"
      and "requests w' ! i = (pkg_name, pkg_version)"
      and "request_raises e (urlopen e i pkg_name pkg_version) = Some x"
  shows "r = Inl x"
  using run_steps_requests assms unfolding check_def run_def by blast

text \<open>
  C10. \<^verbatim>\<open>_call_pypi_json_api\<close> handles \<^verbatim>\<open>HTTPError\<close> only. Take any request to the registry
  that a call of \<^verbatim>\<open>check\<close> sent (the \<open>i\<close>-th entry of the request log it leaves behind).
  If that request failed below HTTP, or its body was not UTF-8, or \<^verbatim>\<open>json.loads\<close> rejected
  its body, then \<^verbatim>\<open>check\<close> raised that very exception: the caller has no
  \<^verbatim>\<open>PipCheckResult\<close>.
\<close>

theorem registry_failure_reaches_caller:
  assumes "check e pip_command requested tmp_path clean w = (r, w')"
      and "length (requests w) \<le> i" and "i < length (requests w')"
      and "requests w' ! i = (pkg_name, pkg_version)"
  shows "(urlopen e i pkg_name pkg_version = Unreachable \<longrightarrow> r = Inl URLError)
       \<and> (urlopen e i pkg_name pkg_version = Undecodable \<longrightarrow> r = Inl UnicodeDecodeError)
       \<and> (\<forall>text. urlopen e i pkg_name pkg_version = Body text \<and> json_loads e text = None
                 \<longrightarrow> r = Inl JSONDecodeError)"
  using check_requests [OF assms]
  by (auto simp: request_raises_def)

theorem registry_failure_reaches_caller_witness:
  "requests (snd (check env_unreachable pip [''six''] None False w_init))
     = [(JStr ''six'', JStr ''1.11.0'')]
   \<and> urlopen env_unreachable 0 (JStr ''six'') (JStr ''1.11.0'') = Unreachable
   \<and> fst (check env_unreachable pip [''six''] None False w_init) = Inl URLError
   \<and> fst (check (env_answering Undecodable) pip [''six''] None False w_init)
       = Inl UnicodeDecodeError
   \<and> json_loads (env_answering (Body ''<html>Bad Gateway</html>'')) ''<html>Bad Gateway</html>''
       = None
   \<and> fst (check (env_answering (Body ''<html>Bad Gateway</html>'')) pip [''six''] None False
            w_init)
       = Inl JSONDecodeError"
proof -
  have pair: "check e pip [''six''] None False w_init
            = (fst (check e pip [''six''] None False w_init),
               snd (check e pip [''six''] None False w_init))" for e
    by simp
  have h2: "length (requests w_init) \<le> 0"
    by (simp add: w_init_def)
  have log1: "requests (snd (check env_unreachable pip [''six''] None False w_init))
             = [(JStr ''six'', JStr ''1.11.0'')]"
    by (simp add: step_defs env_unreachable_def demo_defs)
  have log2: "requests (snd (check (env_answering Undecodable) pip [''six''] None False w_init))
             = [(JStr ''six'', JStr ''1.11.0'')]"
    by (simp add: step_defs env_answering_def demo_defs)
  have log3: "requests (snd (check (env_answering (Body ''<html>Bad Gateway</html>'')) pip
                               [''six''] None False w_init))
             = [(JStr ''six'', JStr ''1.11.0'')]"
    by (simp add: step_defs env_answering_def demo_defs)
  have a1: "urlopen env_unreachable 0 (JStr ''six'') (JStr ''1.11.0'') = Unreachable"
    by (simp add: env_unreachable_def demo_env_def)
  have a2: "urlopen (env_answering Undecodable) 0 (JStr ''six'') (JStr ''1.11.0'') = Undecodable"
    by (simp add: env_answering_def demo_env_def)
  have a3: "urlopen (env_answering (Body ''<html>Bad Gateway</html>'')) 0 (JStr ''six'')
              (JStr ''1.11.0'') = Body ''<html>Bad Gateway</html>''"
    by (simp add: env_answering_def demo_env_def)
  have n3: "json_loads (env_answering (Body ''<html>Bad Gateway</html>''))
              ''<html>Bad Gateway</html>'' = None"
    by (simp add: env_answering_def demo_defs)
  have c1: "fst (check env_unreachable pip [''six''] None False w_init) = Inl URLError"
    using a1 registry_failure_reaches_caller [where e = env_unreachable and i = 0, OF pair h2]
    by (simp add: log1)
  have c2: "fst (check (env_answering Undecodable) pip [''six''] None False w_init)
            = Inl UnicodeDecodeError"
    using a2 registry_failure_reaches_caller
        [where e = "env_answering Undecodable" and i = 0, OF pair h2]
    by (simp add: log2)
  have c3: "fst (check (env_answering (Body ''<html>Bad Gateway</html>'')) pip [''six''] None
                  False w_init) = Inl JSONDecodeError"
    using a3 n3
      registry_failure_reaches_caller
        [where e = "env_answering (Body ''<html>Bad Gateway</html>'')" and i = 0, OF pair h2]
    by (simp add: log3)
  from log1 a1 c1 c2 n3 c3 show ?thesis by blast
qed

lemma registry_not_found_degrades:
  assumes "urlopen e (length (requests w)) pkg_name pkg_version = HTTPError status"
  shows "fst (call_pypi_json_api' e pkg_name pkg_version w) = Inr JNull"
    and "release_times JNull latest_ver installed_ver latest_rel installed_rel
           = Inr ((JNull, JNull), (latest_rel, installed_rel))"
  using assms by (simp_all add: call_pypi_json_api'_def release_times_def)

text \<open>
  C4. The claim fails on the code where the registry's answer has no \<^verbatim>\<open>releases\<close> key:
  \<^verbatim>\<open>latest_release\<close> and \<^verbatim>\<open>installed_release\<close> are assigned only under
  \<^verbatim>\<open>if 'releases' in result\<close> but read after it. For the first package of a run the read
  raises \<^verbatim>\<open>UnboundLocalError\<close> and \<^verbatim>\<open>check\<close> returns nothing; for a later package the
  variables still hold the release records of an earlier package, whose upload times are
  reported (here \<^verbatim>\<open>pytz\<close> gets the upload time of \<^verbatim>\<open>six\<close>) instead of \<^verbatim>\<open>None\<close>.
\<close>

theorem missing_releases_key_eval:
  "fst (check env_no_releases pip [''six''] None False w_init) = Inl UnboundLocalError
   \<and> fst (check env_stale pip [''six''] None False w_init)
       = Inr \<lparr>packages = [''six''], result_type = SUCCESS, result_text = None,
              dependency_info = Some stale_report\<rparr>"
  by (simp add: step_defs env_no_releases_def env_stale_def stale_report_def demo_defs)

subsection \<open>What a run can raise\<close>

lemma py_get_not_PipError: "py_get a k = Inl x \<Longrightarrow> \<not> is_PipError x"
  by (cases a) (auto split: if_splits)

lemma py_in_not_PipError: "py_in k a = Inl x \<Longrightarrow> \<not> is_PipError x"
  by (cases a) (auto split: if_splits json.splits)

lemma py_getitem0_not_PipError: "py_getitem0 a = Inl x \<Longrightarrow> \<not> is_PipError x"
  by (cases a rule: py_getitem0.cases) auto

lemma py_iter_not_PipError: "py_iter a = Inl x \<Longrightarrow> \<not> is_PipError x"
  by (cases a) auto

lemma merge_latest_not_PipError: "merge_latest od n iv = Inl x \<Longrightarrow> \<not> is_PipError x"
  by (auto simp: merge_latest_def dict_contains_def dict_get_def split: if_splits sum.splits)

lemma upload_time_of_not_PipError: "upload_time_of rel = Inl x \<Longrightarrow> \<not> is_PipError x"
  by (auto simp: upload_time_of_def split: option.splits if_splits sum.splits
           dest: py_getitem0_not_PipError py_get_not_PipError)

lemma release_times_not_PipError:
  "release_times result lv iv lr ir = Inl x \<Longrightarrow> \<not> is_PipError x"
  by (auto simp: release_times_def split: if_splits sum.splits prod.splits
           dest: py_in_not_PipError py_get_not_PipError upload_time_of_not_PipError)

lemma call_pypi_json_api'_not_PipError:
  "call_pypi_json_api' e n v w = (Inl x, w') \<Longrightarrow> \<not> is_PipError x"
  by (auto simp: call_pypi_json_api'_def Let_def split: http_outcome.splits option.splits)

lemma list_body_not_PipError:
  "list_body e od pkg st w = (Inl x, w') \<Longrightarrow> \<not> is_PipError x"
  by (auto simp: list_body_def datetime_now_def split: sum.splits prod.splits
           dest: py_get_not_PipError merge_latest_not_PipError
                 call_pypi_json_api'_not_PipError release_times_not_PipError)

lemma list_loop_not_PipError:
  "list_loop e od pkgs st w = (Inl x, w') \<Longrightarrow> \<not> is_PipError x"
  by (induction pkgs arbitrary: st w)
     (auto split: sum.splits prod.splits dest: list_body_not_PipError)

lemma outdated_loop_not_PipError:
  "outdated_loop items d = Inl x \<Longrightarrow> \<not> is_PipError x"
  by (induction items arbitrary: d)
     (auto simp: dict_setitem_def split: sum.splits if_splits dest: py_get_not_PipError)

lemma list_loops_not_PipError:
  "list_loops e a b w = (Inl x, w') \<Longrightarrow> \<not> is_PipError x"
  by (auto simp: list_loops_def split: sum.splits prod.splits
           dest: py_iter_not_PipError outdated_loop_not_PipError list_loop_not_PipError)

lemma list_query_not_PipError:
  "list_query e self sub p q w = (Inl x, w') \<Longrightarrow> \<not> is_PipError x"
  by (auto simp: list_query_def run_command'_def read'_def Let_def
           split: sum.splits prod.splits option.splits if_splits)

lemma list'_not_PipError:
  "list' e self w = (Inl x, w') \<Longrightarrow> \<not> is_PipError x"
  by (auto simp: list'_def split: sum.splits prod.splits option.splits
           dest: list_query_not_PipError list_loops_not_PipError)

lemma clean_block_Inl:
  assumes "output_directory' self = Some d" and "clean_block e self w = (Inl x, w')"
  shows "clean' self \<and>
     (\<exists>command returncode out err stderr_path.
        x = PipError command returncode stderr_path \<and>
        subprocess_run e command = (returncode, out, err) \<and> returncode \<noteq> 0 \<and>
        ((command = build_command' self [''freeze''] \<and>
          stderr_path = os_path_join d ''freeze-error.txt'') \<or>
         (command = build_command' self
                      [''uninstall'', ''--yes'', ''-r'', os_path_join d ''requirements-old.txt''] \<and>
          stderr_path = os_path_join d ''uninstall-error.txt'')))"
  using assms
  by (auto simp: clean_block_def freeze'_def uninstall'_def run_command'_def
                 getsize_positive_def Let_def
           split: if_splits prod.splits sum.splits option.splits)

lemma install'_Inl:
  assumes "output_directory' self = Some d" and "install' e self w = (Inl x, w')"
  shows "x = UnicodeDecodeError \<and>
     (\<exists>returncode out err.
        subprocess_run e (build_command' self ([''install'', ''-U''] @ packages' self))
          = (returncode, out, err) \<and>
        returncode \<noteq> 0 \<and> decode_text e err = None)"
  using assms
  by (auto simp: install'_def run_command'_def read'_def Let_def
           split: if_splits prod.splits sum.splits option.splits)

lemma check'_Inl:
  assumes "output_directory' self = Some d" and "check' e self w = (Inl x, w')"
  shows "x = UnicodeDecodeError \<and>
     (\<exists>returncode out err.
        subprocess_run e (build_command' self [''check'']) = (returncode, out, err) \<and>
        returncode \<noteq> 0 \<and> decode_text e out = None)"
  using assms
  by (auto simp: check'_def run_command'_def read'_def Let_def os_path_join_eq_iff
           split: if_splits prod.splits sum.splits option.splits)

lemma install'_SUCCESS:
  assumes "output_directory' self = Some d" "install' e self w = (Inr res, w')"
      and "result_type res \<noteq> INSTALL_ERROR"
  shows "fst (subprocess_run e (build_command' self ([''install'', ''-U''] @ packages' self))) = 0
       \<and> result_type res = SUCCESS"
  using assms
  by (auto simp: install'_def run_command'_def read'_def Let_def
           split: if_splits prod.splits sum.splits option.splits)

text \<open>
  C6, as the code has it. If \<^verbatim>\<open>run\<close> raises, then one of four things happened. The
  exception is a \<^verbatim>\<open>PipError\<close> raised by the clean block: \<^verbatim>\<open>clean\<close> was requested, the freeze
  command or the uninstall command exited with a non-zero code, and the error carries
  that command, that exit code and the path of that command's standard-error file. Or
  the install command exited with a non-zero code and its standard error could not be
  decoded: \<^verbatim>\<open>_read\<close> raised \<^verbatim>\<open>UnicodeDecodeError\<close> in \<^verbatim>\<open>_install\<close>. Or the install command
  exited with 0 and the exception, which is not a \<^verbatim>\<open>PipError\<close>, was raised by the enrichment
  step \<^verbatim>\<open>_list\<close>. Or the install command exited with 0, the check command exited with a
  non-zero code and its standard output could not be decoded: \<^verbatim>\<open>_read\<close> raised
  \<^verbatim>\<open>UnicodeDecodeError\<close> in \<^verbatim>\<open>_check\<close>. So a \<^verbatim>\<open>PipError\<close> comes from the clean block only.
\<close>

theorem run_raises_classified:
  assumes "run e self w = (Inl x, w')"
  shows "(is_PipError x \<and> clean' self \<and>
          (\<exists>command returncode out err stderr_path.
             x = PipError command returncode stderr_path \<and>
             subprocess_run e command = (returncode, out, err) \<and> returncode \<noteq> 0 \<and>
             ((command = build_command' self [''freeze''] \<and>
               stderr_path = os_path_join (mkdtemp e (tmp_path' self)) ''freeze-error.txt'') \<or>
              (command = build_command' self
                           [''uninstall'', ''--yes'', ''-r'',
                            os_path_join (mkdtemp e (tmp_path' self)) ''requirements-old.txt''] \<and>
               stderr_path = os_path_join (mkdtemp e (tmp_path' self)) ''uninstall-error.txt''))))
       \<or> (x = UnicodeDecodeError \<and>
          (\<exists>returncode out err.
             subprocess_run e (build_command' self ([''install'', ''-U''] @ packages' self))
               = (returncode, out, err) \<and>
             returncode \<noteq> 0 \<and> decode_text e err = None))
       \<or> (\<not> is_PipError x \<and>
          fst (subprocess_run e (build_command' self ([''install'', ''-U''] @ packages' self))) = 0 \<and>
          (\<exists>u u'. list' e (self\<lparr>output_directory' := Some (mkdtemp e (tmp_path' self))\<rparr>) u
                     = (Inl x, u')))
       \<or> (x = UnicodeDecodeError \<and>
          fst (subprocess_run e (build_command' self ([''install'', ''-U''] @ packages' self))) = 0 \<and>
          (\<exists>returncode out err.
             subprocess_run e (build_command' self [''check'']) = (returncode, out, err) \<and>
             returncode \<noteq> 0 \<and> decode_text e out = None))"
proof -
  let ?d = "mkdtemp e (tmp_path' self)"
  let ?self = "self\<lparr>output_directory' := Some ?d\<rparr>"
  have dir: "output_directory' ?self = Some ?d" by simp
  from assms have steps: "run_steps e ?self w = (Inl x, w')" by (simp add: run_def)
  obtain r1 w1 where c: "clean_block e ?self w = (r1, w1)" by (cases "clean_block e ?self w")
  show ?thesis
  proof (cases r1)
    case (Inl y)
    with steps c have "y = x" by (simp add: run_steps_def)
    with clean_block_Inl [OF dir, of e w x w1] c Inl show ?thesis by auto
  next
    case u: (Inr u)
    obtain r2 w2 where i: "install' e ?self w1 = (r2, w2)" by (cases "install' e ?self w1")
    show ?thesis
    proof (cases r2)
      case (Inl y)
      with steps c u i have "y = x" by (simp add: run_steps_def)
      with install'_Inl [OF dir, of e w1 x w2] i Inl show ?thesis by simp
    next
      case res: (Inr res)
      show ?thesis
      proof (cases "result_type res \<noteq> INSTALL_ERROR")
        case False
        with steps c u i res show ?thesis by (simp add: run_steps_def)
      next
        case True
        from install'_SUCCESS [OF dir _ True, of e w1 w2] i res
        have ok: "fst (subprocess_run e (build_command' self ([''install'', ''-U''] @ packages' self))) = 0"
          and succ: "result_type res = SUCCESS"
          by simp_all
        obtain r3 w3 where l: "list' e ?self w2 = (r3, w3)" by (cases "list' e ?self w2")
        show ?thesis
        proof (cases r3)
          case (Inl y)
          with steps c u i res True l have "y = x" by (simp add: run_steps_def)
          with l Inl list'_not_PipError [of e ?self w2 x w3] ok show ?thesis by blast
        next
          case (Inr dep)
          obtain r4 w4 where k: "check' e ?self w3 = (r4, w4)" by (cases "check' e ?self w3")
          from steps c u i res True l Inr succ k have "r4 = Inl x"
            by (cases r4) (simp_all add: run_steps_def)
          with check'_Inl [OF dir, of e w3 x w4] k ok show ?thesis by simp
        qed
      qed
    qed
  qed
qed

theorem run_raises_classified_witness:
  "fst (run env_freeze_fails self_clean w_init)
     = Inl (PipError (pip @ [''freeze'']) 2 ''/tmp/tmpab12cd/freeze-error.txt'')
   \<and> clean' self_clean
   \<and> subprocess_run env_freeze_fails (pip @ [''freeze'']) = (2, [], ''ERROR: freeze failed'')
   \<and> fst (run (env_answering Unreachable) self_six w_init) = Inl URLError
   \<and> fst (subprocess_run (env_answering Unreachable)
            (build_command' self_six ([''install'', ''-U''] @ packages' self_six))) = 0
   \<and> fst (run env_garbled self_six w_init) = Inl UnicodeDecodeError
   \<and> decode_text env_garbled [CHR 0xFF, CHR 0xFE] = None
   \<and> fst (run env_conflict_garbled self_six w_init) = Inl UnicodeDecodeError"
proof -
  have r: "fst (run env_freeze_fails self_clean w_init)
     = Inl (PipError (pip @ [''freeze'']) 2 ''/tmp/tmpab12cd/freeze-error.txt'')"
    by (simp add: step_defs env_freeze_fails_def demo_defs)
  then have h: "run env_freeze_fails self_clean w_init
     = (Inl (PipError (pip @ [''freeze'']) 2 ''/tmp/tmpab12cd/freeze-error.txt''),
        snd (run env_freeze_fails self_clean w_init))"
    by (simp add: prod_eq_iff)
  have c: "clean' self_clean"
    by (simp add: self_clean_def self_six_def)
  have s: "subprocess_run env_freeze_fails (pip @ [''freeze'']) = (2, [], ''ERROR: freeze failed'')"
    by (simp add: env_freeze_fails_def demo_defs)
  have r': "fst (run (env_answering Unreachable) self_six w_init) = Inl URLError"
    by (simp add: step_defs env_answering_def demo_defs)
  then have h': "run (env_answering Unreachable) self_six w_init
     = (Inl URLError, snd (run (env_answering Unreachable) self_six w_init))"
    by (simp add: prod_eq_iff)
  have i: "fst (subprocess_run (env_answering Unreachable)
            (build_command' self_six ([''install'', ''-U''] @ packages' self_six))) = 0"
    using run_raises_classified [OF h'] by auto
  have g: "fst (run env_garbled self_six w_init) = Inl UnicodeDecodeError"
    by (simp add: step_defs env_garbled_def demo_defs)
  have d: "decode_text env_garbled [CHR 0xFF, CHR 0xFE] = None"
    by (simp add: decode_text_def env_garbled_def demo_env_def)
  have k: "fst (run env_conflict_garbled self_six w_init) = Inl UnicodeDecodeError"
    by (simp add: step_defs env_conflict_garbled_def demo_defs)
  show ?thesis
    using r c s r' i g d k run_raises_classified [OF h]
    by blast
qed

text \<open>
  The claim as stated fails: with the registry unreachable, no clean block requested and
  a successful install, the caller gets \<^verbatim>\<open>URLError\<close>, which is neither a \<^verbatim>\<open>PipError\<close> nor
  a result; no uninstall command was run.
\<close>

theorem run_raises_URLError_counterexample:
  "fst (run env_unreachable self_six w_init) = Inl URLError
   \<and> \<not> is_PipError URLError
   \<and> commands (snd (run env_unreachable self_six w_init)) =
       [pip @ [''install'', ''-U'', ''six''], pip @ [''list'', ''--format=json''],
        pip @ [''list'', ''-o'', ''--format=json'']]"
  by (simp add: step_defs env_unreachable_def demo_defs)


end
